theory Spec2Isabelle
  imports Main
begin

section \<open>The builder of node-amxxpack (src/builder/builder.ts)\<close>

text \<open>
  The class \<open>AmxxBuilder\<close> drives a build: it copies assets, include files and scripts
  to their output directories and runs the compiler on every script. Each method is an
  \<open>async\<close> function whose calls are all awaited, so a method is modelled as a function
  from the world before the call to its outcome (a raised error or a value) and the
  world after it. A raised error does not undo what was done before it.
\<close>

subsection \<open>Configuration (src/types/index.ts) and options\<close>

text \<open>
  \<open>IProjectConfig\<close>, with the nested objects flattened (\<open>input.scripts\<close> is
  \<open>input_scripts\<close>). The fields the builder never reads (\<open>compiler.addons\<close>,
  \<open>thirdparty\<close>) are left out. A directory that is not configured is the empty string,
  which JavaScript takes as false.
\<close>

record IProjectConfig =
  input_scripts :: string
  input_include :: string
  input_assets :: string
  output_scripts :: string
  output_plugins :: string
  output_include :: string
  output_assets :: string
  compiler_dir :: string
  compiler_version :: string
  compiler_dev :: bool
  compiler_executable :: string
  cfg_include :: "string list"
  rules_flatCompilation :: bool

text \<open>\<open>BuildOptions\<close>: \<open>ignoreErrors\<close> is optional; an absent flag is \<open>None\<close>.\<close>

record BuildOptions =
  ignoreErrors :: "bool option"

text \<open>JavaScript truthiness of the values the builder tests.\<close>

definition truthy_flag :: "bool option \<Rightarrow> bool" where
  "truthy_flag b = (b = Some True)"

definition truthy_str :: "string \<Rightarrow> bool" where
  "truthy_str s = (s \<noteq> [])"

text \<open>lodash's \<open>castArray\<close> on a value the configuration types as one string.\<close>

definition castArray :: "string \<Rightarrow> string list" where
  "castArray s = [s]"

subsection \<open>The compiler's result (the contract of ./amxxpc)\<close>

datatype AMXPCMessageType = Echo | Error | Warning | FatalError

record message =
  msg_startLine :: "int option"
  msg_type :: AMXPCMessageType
  msg_code :: "string option"
  msg_text :: string
  msg_filename :: "string option"

record compile_result =
  res_success :: bool
  res_plugin :: string
  res_error :: string
  res_messages :: "message list"

record amxxpc_args =
  arg_path :: string
  arg_dest :: string
  arg_compiler :: string
  arg_includeDir :: "string list"

subsection \<open>The world: what the builder did to its collaborators\<close>

text \<open>
  The builder's effects are calls of the logger, of \<open>mkdirp\<close>, of
  \<open>fs.promises.copyFile\<close> and of the compiler. The world is the list of the calls made
  so far, oldest first. A call of \<open>mkdirp\<close> or \<open>copyFile\<close> that fails raises and is not
  listed. \<open>CopyFile src dest\<close> is Node's \<open>copyFile(src, dest)\<close> with no mode argument:
  it replaces \<open>dest\<close> when it exists. \<open>Call match\<close> marks the moment \<open>buildDir\<close>
  invokes its callback on a match; it is a history entry that no function of the builder
  reads, kept to count and order the invocations.
\<close>

text \<open>
  The levels are the logger's methods \<open>info\<close>, \<open>success\<close>, \<open>warn\<close>, \<open>error\<close> and
  \<open>debug\<close>. The arguments of a call are strings, but for the parts of a diagnostic:
  \<open>Loc p n\<close> is the template string of the path \<open>p\<close> and the line \<open>n\<close>, \<open>Ty\<close> the
  type of the message and \<open>Code\<close> its code.
\<close>

datatype level = Info | Success | Warn | Err | Debug

datatype logarg =
  Str string
  | Loc string "int option"
  | Ty AMXPCMessageType
  | Code "string option"

datatype event =
  Log level "logarg list"
  | Mkdirp string
  | CopyFile string string
  | Amxxpc amxxpc_args
  | Call string

type_synonym world = "event list"

text \<open>
  What the builder throws. The first three are the \<open>new Error(...)\<close> of the source, with
  the interpolated parts of the message as arguments; \<open>IOFailure\<close> is whatever
  \<open>mkdirp\<close> or \<open>copyFile\<close> rejects with.
\<close>

datatype exn =
  NoRelativePathAsset string
  | NoRelativePathPlugin string
  | FailedToCompile string string
  | IOFailure string

subsection \<open>The collaborators\<close>

text \<open>
  Everything the builder imports is a parameter: Node's \<open>path\<close>
  functions, \<open>normalize-path\<close>, \<open>globule.find\<close>, \<open>mkdirp\<close>, \<open>copyFile\<close>, and, of this
  repository, the path patterns of ./constants, \<open>findRelativePath\<close> and \<open>amxxpc\<close>.
  \<open>findRelativePath\<close> answers \<open>None\<close> where the source's returns null. The outcome of
  an effectful call may depend on everything done so far, so these take the world;
  \<open>mkdirp\<close> and \<open>copyFile\<close> answer the message of the failure, if any, and
  \<open>amxxpc\<close> always answers a result, whose \<open>success\<close> flag tells how the compiler did
  (the specification's \<open>compile\<close> returns a \<open>CompileResult\<close>).
\<close>

record env =
  path_resolve :: "string \<Rightarrow> string"
  path_join :: "string \<Rightarrow> string \<Rightarrow> string"
  path_base :: "string \<Rightarrow> string"
  path_dir :: "string \<Rightarrow> string"
  path_relative_cwd :: "string \<Rightarrow> string"
  normalizePath :: "string \<Rightarrow> string"
  findRelativePath :: "string list \<Rightarrow> string \<Rightarrow> string option"
  SCRIPTS_PATH_PATTERN :: string
  INCLUDE_PATH_PATTERN :: string
  ASSETS_PATH_PATTERN :: string
  globule_find :: "string list \<Rightarrow> world \<Rightarrow> string list"
  mkdirp :: "string \<Rightarrow> world \<Rightarrow> string option"
  copyFile :: "string \<Rightarrow> string \<Rightarrow> world \<Rightarrow> string option"
  amxxpc :: "amxxpc_args \<Rightarrow> world \<Rightarrow> compile_result"

subsection \<open>Async functions\<close>

type_synonym ('s, 'a) async = "'s \<Rightarrow> (exn + 'a) \<times> 's"

definition resolved :: "'a \<Rightarrow> ('s, 'a) async" where
  "resolved a s = (Inr a, s)"

definition throw :: "exn \<Rightarrow> ('s, 'a) async" where
  "throw e s = (Inl e, s)"

text \<open>\<open>await m\<close> followed by the rest of the function body \<open>k\<close>.\<close>

definition await :: "('s, 'a) async \<Rightarrow> ('a \<Rightarrow> ('s, 'b) async) \<Rightarrow> ('s, 'b) async" where
  "await m k s = (case m s of (Inl e, s') \<Rightarrow> (Inl e, s') | (Inr a, s') \<Rightarrow> k a s')"

definition logger :: "level \<Rightarrow> logarg list \<Rightarrow> (world, unit) async" where
  "logger lvl args w = (Inr (), w @ [Log lvl args])"

definition do_mkdirp :: "env \<Rightarrow> string \<Rightarrow> (world, unit) async" where
  "do_mkdirp E d w =
     (case mkdirp E d w of
        Some m \<Rightarrow> (Inl (IOFailure m), w)
      | None \<Rightarrow> (Inr (), w @ [Mkdirp d]))"

definition do_copyFile :: "env \<Rightarrow> string \<Rightarrow> string \<Rightarrow> (world, unit) async" where
  "do_copyFile E src dst w =
     (case copyFile E src dst w of
        Some m \<Rightarrow> (Inl (IOFailure m), w)
      | None \<Rightarrow> (Inr (), w @ [CopyFile src dst]))"

definition do_amxxpc :: "env \<Rightarrow> amxxpc_args \<Rightarrow> (world, compile_result) async" where
  "do_amxxpc E a w = (Inr (amxxpc E a w), w @ [Amxxpc a])"

subsection \<open>Copying one file (builder.ts, lines 118 to 153)\<close>

definition updateScript :: "env \<Rightarrow> IProjectConfig \<Rightarrow> string \<Rightarrow> (world, unit) async" where
  "updateScript E cfg filePath =
     (if \<not> truthy_str (output_scripts cfg) then resolved ()
      else
        let srcPath = path_resolve E filePath;
            destPath = path_join E (output_scripts cfg) (path_base E filePath)
        in await (do_mkdirp E (output_scripts cfg)) (\<lambda>_.
           await (do_copyFile E srcPath destPath) (\<lambda>_.
           logger Info [Str ''Script updated:'', Str (normalizePath E destPath)])))"

text \<open>
  \<open>if (!relativePath)\<close> takes null and the empty string alike: both throw.
\<close>

definition updateAsset :: "env \<Rightarrow> IProjectConfig \<Rightarrow> string \<Rightarrow> (world, unit) async" where
  "updateAsset E cfg filePath =
     (let srcPath = path_resolve E filePath
      in case findRelativePath E (castArray (input_assets cfg)) filePath of
           None \<Rightarrow> throw (NoRelativePathAsset filePath)
         | Some relativePath \<Rightarrow>
             if \<not> truthy_str relativePath then throw (NoRelativePathAsset filePath)
             else
               let destPath = path_join E (output_assets cfg) relativePath
               in await (do_mkdirp E (path_dir E destPath)) (\<lambda>_.
                  await (do_copyFile E srcPath destPath) (\<lambda>_.
                  logger Info [Str ''Asset updated'', Str (normalizePath E destPath)])))"

definition updateInclude :: "env \<Rightarrow> IProjectConfig \<Rightarrow> string \<Rightarrow> (world, unit) async" where
  "updateInclude E cfg filePath =
     (let srcPath = path_resolve E filePath;
          destPath = path_join E (output_include cfg) (path_base E filePath)
      in await (do_mkdirp E (output_include cfg)) (\<lambda>_.
         await (do_copyFile E srcPath destPath) (\<lambda>_.
         logger Info [Str ''Include updated:'', Str (normalizePath E destPath)])))"

subsection \<open>Compiling one script (builder.ts, lines 162 to 214)\<close>

text \<open>
  Lines 165 to 175: the directory the artifact goes to. With the flat rule it is the
  resolved plugins output directory; otherwise the directory of the script, relative to
  the scripts input directory, is joined to it, and a missing relative path throws.
\<close>

definition plugin_destDir :: "env \<Rightarrow> IProjectConfig \<Rightarrow> string \<Rightarrow> exn + string" where
  "plugin_destDir E cfg filePath =
     (let srcPath = path_resolve E filePath;
          destDir = path_resolve E (output_plugins cfg)
      in if \<not> rules_flatCompilation cfg then
           let srcDir = path_dir E srcPath
           in case findRelativePath E (castArray (input_scripts cfg)) srcDir of
                None \<Rightarrow> Inl (NoRelativePathPlugin filePath)
              | Some relativePath \<Rightarrow>
                  if \<not> truthy_str relativePath then Inl (NoRelativePathPlugin filePath)
                  else Inr (path_join E destDir relativePath)
         else Inr destDir)"

text \<open>Lines 182 to 191: the arguments of the compiler call.\<close>

definition plugin_args :: "env \<Rightarrow> IProjectConfig \<Rightarrow> string \<Rightarrow> string \<Rightarrow> amxxpc_args" where
  "plugin_args E cfg filePath destDir =
     \<lparr>arg_path = path_resolve E filePath,
      arg_dest = destDir,
      arg_compiler = path_join E (compiler_dir cfg) (compiler_executable cfg),
      arg_includeDir =
        [path_join E (compiler_dir cfg) ''include''] @ cfg_include cfg
          @ castArray (input_include cfg)\<rparr>"

text \<open>
  Lines 193 to 204: the body of the \<open>forEach\<close> over the messages. A message with no
  file name (or an empty one) is shown at the compiled script's path.
\<close>

definition message_path :: "env \<Rightarrow> string \<Rightarrow> message \<Rightarrow> string" where
  "message_path E relateiveSrcPath m =
     (case msg_filename m of
        None \<Rightarrow> relateiveSrcPath
      | Some filename \<Rightarrow>
          if truthy_str filename then path_relative_cwd E filename else relateiveSrcPath)"

definition logMessage :: "env \<Rightarrow> string \<Rightarrow> message \<Rightarrow> world \<Rightarrow> world" where
  "logMessage E relateiveSrcPath m w =
     (let relativeFilePath = message_path E relateiveSrcPath m;
          args = [Loc (normalizePath E relativeFilePath) (msg_startLine m), Ty (msg_type m),
                  Code (msg_code m), Str '':'', Str (msg_text m)]
      in if msg_type m = Error \<or> msg_type m = FatalError then w @ [Log Err args]
         else if msg_type m = Warning then w @ [Log Warn args]
         else if msg_type m = Echo then w @ [Log Debug [Str (msg_text m)]]
         else w)"

fun forEach :: "('a \<Rightarrow> world \<Rightarrow> world) \<Rightarrow> 'a list \<Rightarrow> world \<Rightarrow> world" where
  "forEach f [] w = w"
| "forEach f (x # xs) w = forEach f xs (f x w)"

definition compilePlugin :: "env \<Rightarrow> IProjectConfig \<Rightarrow> string \<Rightarrow> (world, unit) async" where
  "compilePlugin E cfg filePath =
     (let srcPath = path_resolve E filePath
      in case plugin_destDir E cfg filePath of
           Inl e \<Rightarrow> throw e
         | Inr destDir \<Rightarrow>
             let relateiveSrcPath = path_relative_cwd E srcPath
             in await (do_mkdirp E destDir) (\<lambda>_.
                await (do_amxxpc E (plugin_args E cfg filePath destDir)) (\<lambda>result.
                await (\<lambda>w. (Inr (), forEach (logMessage E relateiveSrcPath) (res_messages result) w))
                  (\<lambda>_.
                if res_success result then
                  let destPath = path_join E destDir (res_plugin result);
                      relativeFilePath = path_relative_cwd E filePath
                  in await (logger Success
                              [Str ''Compilation success:'', Str (normalizePath E relativeFilePath)])
                       (\<lambda>_. logger Info [Str ''Plugin updated:'', Str (normalizePath E destPath)])
                else throw (FailedToCompile (normalizePath E relateiveSrcPath) (res_error result))))))"

definition updatePlugin :: "env \<Rightarrow> IProjectConfig \<Rightarrow> string \<Rightarrow> (world, unit) async" where
  "updatePlugin E cfg filePath =
     await (updateScript E cfg filePath) (\<lambda>_. compilePlugin E cfg filePath)"

subsection \<open>Running a callback over the matches (builder.ts, lines 216 to 227)\<close>

text \<open>
  The callbacks of the builder are closures; \<open>buildSrc\<close>'s assigns to a local variable
  of the enclosing method. The state a callback runs in is therefore a pair: the
  closure's variables and the world.

  \<open>acc.then(() => cb(match))\<close>: on a fulfilled \<open>acc\<close> the callback runs, from the state
  \<open>acc\<close> was fulfilled in; a rejected \<open>acc\<close> stays as it is and the callback does not
  run. \<open>invoke\<close> is the call \<open>cb(match)\<close>; it leaves the mark \<open>Call match\<close> in the
  world, the one addition to what the source does.
\<close>

definition invoke ::
  "(string \<Rightarrow> ('l \<times> world, unit) async) \<Rightarrow> string \<Rightarrow> ('l \<times> world, unit) async" where
  "invoke cb match s = cb match (fst s, snd s @ [Call match])"

definition then_step ::
  "(exn + unit) \<times> 's \<Rightarrow> ('s, unit) async \<Rightarrow> (exn + unit) \<times> 's" where
  "then_step acc k = (case acc of (Inl e, s) \<Rightarrow> (Inl e, s) | (Inr _, s) \<Rightarrow> k s)"

definition reduce_matches ::
  "(string \<Rightarrow> ('l \<times> world, unit) async) \<Rightarrow> string list \<Rightarrow> ('l \<times> world, unit) async" where
  "reduce_matches cb matches s =
     foldl (\<lambda>acc match. then_step acc (invoke cb match)) (Inr (), s) matches"

definition scan :: "env \<Rightarrow> string \<Rightarrow> string \<Rightarrow> world \<Rightarrow> string list" where
  "scan E baseDir pattern w =
     (let pathPattern = map (\<lambda>dir. path_join E dir pattern) (castArray baseDir)
      in globule_find E pathPattern w)"

definition buildDir ::
  "env \<Rightarrow> string \<Rightarrow> string \<Rightarrow> (string \<Rightarrow> ('l \<times> world, unit) async)
     \<Rightarrow> ('l \<times> world, unit) async" where
  "buildDir E baseDir pattern cb s =
     (let matches = scan E baseDir pattern (snd s)
      in reduce_matches cb matches s)"

subsection \<open>The batch (builder.ts, lines 22 to 83)\<close>

text \<open>The callback of \<open>buildSrc\<close>; its closure variable is \<open>success\<close>.\<close>

definition buildSrc_cb ::
  "env \<Rightarrow> IProjectConfig \<Rightarrow> BuildOptions \<Rightarrow> string \<Rightarrow> (bool \<times> world, unit) async" where
  "buildSrc_cb E cfg options filePath s =
     (case updatePlugin E cfg filePath (snd s) of
        (Inr _, w') \<Rightarrow> (Inr (), (fst s, w'))
      | (Inl err, w') \<Rightarrow>
          if \<not> truthy_flag (ignoreErrors options) then (Inl err, (fst s, w'))
          else (Inr (), (False, w')))"

definition buildSrc :: "env \<Rightarrow> IProjectConfig \<Rightarrow> BuildOptions \<Rightarrow> (world, bool) async" where
  "buildSrc E cfg options w =
     (case buildDir E (input_scripts cfg) (SCRIPTS_PATH_PATTERN E) (buildSrc_cb E cfg options)
             (True, w) of
        (Inl e, (success, w')) \<Rightarrow> (Inl e, w')
      | (Inr _, (success, w')) \<Rightarrow> (Inr success, w'))"

text \<open>A callback with no variables of its own.\<close>

definition plain_cb ::
  "(string \<Rightarrow> (world, unit) async) \<Rightarrow> string \<Rightarrow> (unit \<times> world, unit) async" where
  "plain_cb f filePath s = (case f filePath (snd s) of (r, w') \<Rightarrow> (r, ((), w')))"

definition buildInclude :: "env \<Rightarrow> IProjectConfig \<Rightarrow> (world, unit) async" where
  "buildInclude E cfg w =
     (case buildDir E (input_include cfg) (INCLUDE_PATH_PATTERN E)
             (plain_cb (updateInclude E cfg)) ((), w) of
        (r, (_, w')) \<Rightarrow> (r, w'))"

definition buildAssets :: "env \<Rightarrow> IProjectConfig \<Rightarrow> (world, unit) async" where
  "buildAssets E cfg w =
     (if \<not> truthy_str (input_assets cfg) then (Inr (), w)
      else case buildDir E (input_assets cfg) (ASSETS_PATH_PATTERN E)
                  (plain_cb (updateAsset E cfg)) ((), w) of
             (r, (_, w')) \<Rightarrow> (r, w'))"

definition build :: "env \<Rightarrow> IProjectConfig \<Rightarrow> BuildOptions \<Rightarrow> (world, unit) async" where
  "build E cfg options =
     await (logger Info [Str ''Building...'']) (\<lambda>_.
     await (buildAssets E cfg) (\<lambda>_.
     await (buildInclude E cfg) (\<lambda>_.
     await (buildSrc E cfg options) (\<lambda>success.
     if success then logger Success [Str ''Build finished!'']
     else logger Err [Str ''Build finished with errors!'']))))"

section \<open>Notions the properties are stated with\<close>

subsection \<open>The sequential loop of the specification\<close>

text \<open>
  The specification's \<open>forEachMatch\<close>: the action is applied to every match, one after
  the other in scan order; the action on the next match starts in the state the action
  on the previous one completed in, and a failure ends the loop.
\<close>

fun forEachMatch ::
  "(string \<Rightarrow> ('l \<times> world, unit) async) \<Rightarrow> string list \<Rightarrow> ('l \<times> world, unit) async" where
  "forEachMatch action [] s = (Inr (), s)"
| "forEachMatch action (m # ms) s =
     (case invoke action m s of
        (Inl e, s') \<Rightarrow> (Inl e, s')
      | (Inr _, s') \<Rightarrow> forEachMatch action ms s')"

subsection \<open>Reading the world\<close>

text \<open>The matches the callback was invoked on, in the order of the invocations.\<close>

fun calls :: "world \<Rightarrow> string list" where
  "calls [] = []"
| "calls (Call m # w) = m # calls w"
| "calls (_ # w) = calls w"

text \<open>The two lines \<open>build\<close> can end with.\<close>

definition terminal_line :: "bool \<Rightarrow> event" where
  "terminal_line ok =
     (if ok then Log Success [Str ''Build finished!'']
      else Log Err [Str ''Build finished with errors!''])"

definition is_terminal :: "event \<Rightarrow> bool" where
  "is_terminal ev = (ev = terminal_line True \<or> ev = terminal_line False)"

text \<open>The level of a logged line; the other events have none.\<close>

fun level_of :: "event \<Rightarrow> level option" where
  "level_of (Log lvl args) = Some lvl"
| "level_of _ = None"

text \<open>The level the specification gives each kind of diagnostic.\<close>

fun severity_level :: "AMXPCMessageType \<Rightarrow> level" where
  "severity_level FatalError = Err"
| "severity_level Error = Err"
| "severity_level Warning = Warn"
| "severity_level Echo = Debug"

text \<open>
  The source of the latest copy onto a path: a later \<open>CopyFile\<close> onto the same
  destination replaces what an earlier one put there.
\<close>

fun last_copy :: "world \<Rightarrow> string \<Rightarrow> string option" where
  "last_copy [] p = None"
| "last_copy (CopyFile src dst # w) p =
     (case last_copy w p of Some s \<Rightarrow> Some s | None \<Rightarrow> if dst = p then Some src else None)"
| "last_copy (_ # w) p = last_copy w p"

subsection \<open>The path resolver and the diagnostics of the specification\<close>

text \<open>
  Modelled from the spec: \<open>findRelativePath\<close> (the module utils/find-relative-path,
  which is not among the source files) is the specification's \<open>resolveRelative\<close>: the
  candidates are checked in the order supplied, the first base directory that is an
  ancestor of the target wins, and the result is the target relative to that ancestor;
  not found if no base directory is an ancestor. What an ancestor is, and the path of a
  target relative to one, are left to the path functions: they are parameters.
\<close>

fun resolveRelative ::
  "(string \<Rightarrow> string \<Rightarrow> bool) \<Rightarrow> (string \<Rightarrow> string \<Rightarrow> string) \<Rightarrow> string list \<Rightarrow> string
     \<Rightarrow> string option" where
  "resolveRelative is_ancestor relative [] target = None"
| "resolveRelative is_ancestor relative (base # basePaths) target =
     (if is_ancestor base target then Some (relative base target)
      else resolveRelative is_ancestor relative basePaths target)"

text \<open>
  The line the specification's table gives a diagnostic: it is logged at the level of
  its severity and carries the text of the message; but for an echo, the text comes
  after the place of the message (the file it names, or the compiled script, and the
  line), its type and its code.
\<close>

definition diagnostic_line :: "env \<Rightarrow> string \<Rightarrow> message \<Rightarrow> event" where
  "diagnostic_line E scriptPath m =
     Log (severity_level (msg_type m))
       (case msg_type m of
          Echo \<Rightarrow> [Str (msg_text m)]
        | _ \<Rightarrow>
          [Loc (normalizePath E (message_path E scriptPath m)) (msg_startLine m),
           Ty (msg_type m), Code (msg_code m), Str '':'', Str (msg_text m)])"

subsection \<open>The files of a batch, one by one\<close>

text \<open>
  The per-file action of \<open>buildSrc\<close>, as \<open>buildDir\<close> starts it: the invocation is noted
  and \<open>updatePlugin\<close> runs. \<open>outcomes\<close> lists how each file of a batch fares when every
  file is attempted once, in order, whatever the earlier ones did; \<open>run_files\<close> is the
  world after these attempts.
\<close>

definition attempt :: "env \<Rightarrow> IProjectConfig \<Rightarrow> string \<Rightarrow> (world, unit) async" where
  "attempt E cfg filePath w = updatePlugin E cfg filePath (w @ [Call filePath])"

fun outcomes :: "env \<Rightarrow> IProjectConfig \<Rightarrow> string list \<Rightarrow> world \<Rightarrow> (exn + unit) list" where
  "outcomes E cfg [] w = []"
| "outcomes E cfg (f # fs) w =
     fst (attempt E cfg f w) # outcomes E cfg fs (snd (attempt E cfg f w))"

fun run_files :: "env \<Rightarrow> IProjectConfig \<Rightarrow> string list \<Rightarrow> world \<Rightarrow> world" where
  "run_files E cfg [] w = w"
| "run_files E cfg (f # fs) w = run_files E cfg fs (snd (attempt E cfg f w))"

definition succeeded :: "exn + unit \<Rightarrow> bool" where
  "succeeded r = (case r of Inl e \<Rightarrow> False | Inr u \<Rightarrow> True)"

text \<open>The matched script files of a batch started in the world \<open>w\<close>.\<close>

definition script_matches :: "env \<Rightarrow> IProjectConfig \<Rightarrow> world \<Rightarrow> string list" where
  "script_matches E cfg w = scan E (input_scripts cfg) (SCRIPTS_PATH_PATTERN E) w"

text \<open>The first failure among the outcomes of a batch, if any.\<close>

fun first_failure :: "(exn + unit) list \<Rightarrow> exn option" where
  "first_failure [] = None"
| "first_failure (Inl e # rs) = Some e"
| "first_failure (Inr u # rs) = first_failure rs"

subsection \<open>A stub of the collaborators\<close>

text \<open>
  To run the builder on concrete inputs, the collaborators are replaced by a stub: paths
  with \<open>/\<close> as the separator under the working directory \<open>/p\<close>, a file system in
  which every \<open>mkdirp\<close> and every copy succeeds, a scan that finds three scripts, one
  include file and one asset, and a compiler that rejects the scripts listed in \<open>bad\<close>.
\<close>

definition stub_resolve :: "string \<Rightarrow> string" where
  "stub_resolve p = (if take 1 p = ''/'' then p else ''/p/'' @ p)"

definition stub_join :: "string \<Rightarrow> string \<Rightarrow> string" where
  "stub_join a b = a @ ''/'' @ b"

definition stub_base :: "string \<Rightarrow> string" where
  "stub_base p = rev (takeWhile (\<lambda>c. c \<noteq> CHR ''/'') (rev p))"

definition stub_dir :: "string \<Rightarrow> string" where
  "stub_dir p = rev (drop 1 (dropWhile (\<lambda>c. c \<noteq> CHR ''/'') (rev p)))"

text \<open>
  \<open>path.relative(process.cwd(), p)\<close> with \<open>/p\<close> as the working directory: a path under
  it loses the prefix, another absolute path is reached through \<open>..\<close>, and a relative
  path is taken from the working directory as it is.
\<close>

definition stub_relative_cwd :: "string \<Rightarrow> string" where
  "stub_relative_cwd p =
     (if take 3 p = ''/p/'' then drop 3 p
      else if p = ''/p'' then []
      else if take 1 p = ''/'' then ''../'' @ drop 1 p
      else p)"

text \<open>
  In the stub a base directory is an ancestor of a target when the resolved base,
  followed by the separator, begins the resolved target; the rest of the target is its
  path relative to the base. The stub's \<open>findRelativePath\<close> is the specification's
  resolver over these.
\<close>

definition stub_is_ancestor :: "string \<Rightarrow> string \<Rightarrow> bool" where
  "stub_is_ancestor base target =
     (take (length (stub_resolve base @ ''/'')) (stub_resolve target) = stub_resolve base @ ''/'')"

definition stub_relative :: "string \<Rightarrow> string \<Rightarrow> string" where
  "stub_relative base target = drop (length (stub_resolve base @ ''/'')) (stub_resolve target)"

definition stub_findRelativePath :: "string list \<Rightarrow> string \<Rightarrow> string option" where
  "stub_findRelativePath = resolveRelative stub_is_ancestor stub_relative"

definition stub_find :: "string list \<Rightarrow> world \<Rightarrow> string list" where
  "stub_find pathPattern w =
     (if pathPattern = [''src/*.sma''] then [''src/a.sma'', ''src/m/b.sma'', ''src/c.sma'']
      else if pathPattern = [''inc/*.inc''] then [''inc/u.inc'']
      else if pathPattern = [''res/*''] then [''res/t/f.wad'']
      else [])"

definition stub_amxxpc :: "string list \<Rightarrow> amxxpc_args \<Rightarrow> world \<Rightarrow> compile_result" where
  "stub_amxxpc bad a w =
     (if arg_path a \<in> set bad then
        \<lparr>res_success = False, res_plugin = [], res_error = ''1 Error.'',
         res_messages =
           [\<lparr>msg_startLine = Some 7, msg_type = Warning, msg_code = Some ''217'',
             msg_text = ''loose indentation'', msg_filename = None\<rparr>,
            \<lparr>msg_startLine = Some 9, msg_type = Error, msg_code = Some ''017'',
             msg_text = ''undefined symbol'', msg_filename = Some (arg_path a)\<rparr>]\<rparr>
      else
        \<lparr>res_success = True, res_plugin = takeWhile (\<lambda>c. c \<noteq> CHR ''.'') (stub_base (arg_path a)) @ ''.amxx'', res_error = [],
         res_messages =
           [\<lparr>msg_startLine = None, msg_type = Echo, msg_code = None,
             msg_text = ''Done.'', msg_filename = None\<rparr>]\<rparr>)"

definition stub_env :: "string list \<Rightarrow> env" where
  "stub_env bad =
     \<lparr>path_resolve = stub_resolve,
      path_join = stub_join,
      path_base = stub_base,
      path_dir = stub_dir,
      path_relative_cwd = stub_relative_cwd,
      normalizePath = (\<lambda>p. p),
      findRelativePath = stub_findRelativePath,
      SCRIPTS_PATH_PATTERN = ''*.sma'',
      INCLUDE_PATH_PATTERN = ''*.inc'',
      ASSETS_PATH_PATTERN = ''*'',
      globule_find = stub_find,
      mkdirp = (\<lambda>d w. None),
      copyFile = (\<lambda>src dst w. None),
      amxxpc = stub_amxxpc bad\<rparr>"

definition stub_cfg :: "bool \<Rightarrow> IProjectConfig" where
  "stub_cfg flat =
     \<lparr>input_scripts = ''src'', input_include = ''inc'', input_assets = ''res'',
      output_scripts = ''o/s'', output_plugins = ''o/p'', output_include = ''o/i'',
      output_assets = ''o/r'', compiler_dir = ''cc'', compiler_version = ''1.9'',
      compiler_dev = False, compiler_executable = ''amxxpc'', cfg_include = [],
      rules_flatCompilation = flat\<rparr>"

subsection \<open>The body of \<open>build\<close>\<close>

text \<open>Everything \<open>build\<close> does before its closing line.\<close>

definition build_body :: "env \<Rightarrow> IProjectConfig \<Rightarrow> BuildOptions \<Rightarrow> (world, bool) async" where
  "build_body E cfg options =
     await (logger Info [Str ''Building...'']) (\<lambda>_.
     await (buildAssets E cfg) (\<lambda>_.
     await (buildInclude E cfg) (\<lambda>_.
     buildSrc E cfg options)))"

subsection \<open>What a function adds to the world\<close>

text \<open>
  An event is plain when it is neither the mark of an invocation nor one of the two
  closing lines. A function \<open>appends Q\<close> when all it does to the world is to add events
  that satisfy \<open>Q\<close> at its end.
\<close>

definition plain :: "event \<Rightarrow> bool" where
  "plain ev = (calls [ev] = [] \<and> \<not> is_terminal ev)"

definition appends :: "(event \<Rightarrow> bool) \<Rightarrow> (world, 'a) async \<Rightarrow> bool" where
  "appends Q m = (\<forall>w. \<exists>es. snd (m w) = w @ es \<and> list_all Q es)"

section \<open>The promise chain is a sequential loop\<close>

lemma then_step_simps:
  "then_step (Inl e, s) k = (Inl e, s)"
  "then_step (Inr u, s) k = k s"
  by (simp_all add: then_step_def)

lemma foldl_rejected:
  "foldl (\<lambda>acc match. then_step acc (invoke cb match)) (Inl e, s) ms = (Inl e, s)"
  by (induction ms) (simp_all add: then_step_simps)

lemma reduce_matches_Nil: "reduce_matches cb [] s = (Inr (), s)"
  by (simp add: reduce_matches_def)

lemma reduce_matches_Cons:
  "reduce_matches cb (m # ms) s =
     (case invoke cb m s of
        (Inl e, s') \<Rightarrow> (Inl e, s')
      | (Inr _, s') \<Rightarrow> reduce_matches cb ms s')"
proof -
  obtain r s' where step: "invoke cb m s = (r, s')"
    by (cases "invoke cb m s") auto
  show ?thesis
  proof (cases r)
    case (Inl e)
    with step show ?thesis
      by (simp add: reduce_matches_def then_step_simps foldl_rejected)
  next
    case (Inr u)
    with step show ?thesis
      by (simp add: reduce_matches_def then_step_simps)
  qed
qed

lemma reduce_is_loop: "reduce_matches cb ms s = forEachMatch cb ms s"
  by (induction ms arbitrary: s) (simp_all add: reduce_matches_Nil reduce_matches_Cons split: prod.splits sum.splits)

section \<open>Every method only adds to the world\<close>

lemma appendsI: "(\<And>w. \<exists>es. snd (m w) = w @ es \<and> list_all Q es) \<Longrightarrow> appends Q m"
  by (simp add: appends_def)

lemma appendsD: "appends Q m \<Longrightarrow> \<exists>es. snd (m w) = w @ es \<and> list_all Q es"
  by (simp add: appends_def)

lemma appends_resolved: "appends Q (resolved a)"
  by (simp add: appends_def resolved_def)

lemma appends_throw: "appends Q (throw e)"
  by (simp add: appends_def throw_def)

lemma appends_logger: "Q (Log lvl args) \<Longrightarrow> appends Q (logger lvl args)"
  by (simp add: appends_def logger_def)

lemma appends_mkdirp: "Q (Mkdirp d) \<Longrightarrow> appends Q (do_mkdirp E d)"
  by (simp add: appends_def do_mkdirp_def split: option.splits)

lemma appends_copyFile: "Q (CopyFile a b) \<Longrightarrow> appends Q (do_copyFile E a b)"
  by (simp add: appends_def do_copyFile_def split: option.splits)

lemma appends_amxxpc: "Q (Amxxpc a) \<Longrightarrow> appends Q (do_amxxpc E a)"
  by (simp add: appends_def do_amxxpc_def)

lemma appends_await:
  assumes m: "appends Q m" and k: "\<And>a. appends Q (k a)"
  shows "appends Q (await m k)"
proof (rule appendsI)
  fix w
  obtain r w1 where mw: "m w = (r, w1)" by (cases "m w") auto
  from appendsD [OF m, of w] mw obtain es where es: "w1 = w @ es" "list_all Q es" by auto
  show "\<exists>es. snd (await m k w) = w @ es \<and> list_all Q es"
  proof (cases r)
    case (Inl e)
    with mw es show ?thesis by (auto simp: await_def)
  next
    case (Inr a)
    from appendsD [OF k, of a w1] obtain es' where
      es': "snd (k a w1) = w1 @ es'" "list_all Q es'" by auto
    with Inr mw es show ?thesis by (auto simp: await_def)
  qed
qed

lemma plain_simps:
  "plain (Mkdirp d)" "plain (CopyFile a b)" "plain (Amxxpc x)"
  "plain (Log Info args)" "plain (Log Warn args)" "plain (Log Debug args)"
  "plain (Log lvl (x1 # x2 # xs))"
  by (simp_all add: plain_def is_terminal_def terminal_line_def)

lemma logMessage_appends:
  "\<exists>es. logMessage E rel m w = w @ es \<and> list_all plain es"
  by (simp add: logMessage_def Let_def plain_simps)

lemma forEach_logMessage_appends:
  "\<exists>es. forEach (logMessage E rel) ms w = w @ es \<and> list_all plain es"
proof (induction ms arbitrary: w)
  case Nil
  show ?case by simp
next
  case (Cons m ms)
  from logMessage_appends [of E rel m w] obtain es1 where
    a: "logMessage E rel m w = w @ es1" "list_all plain es1" by auto
  from Cons [of "w @ es1"] obtain es2 where
    b: "forEach (logMessage E rel) ms (w @ es1) = (w @ es1) @ es2" "list_all plain es2" by auto
  from a b show ?case by auto
qed

lemma appends_forEach:
  "appends plain (\<lambda>w. (Inr u, forEach (logMessage E rel) ms w))"
  by (rule appendsI) (simp add: forEach_logMessage_appends)

lemma appends_updateScript: "appends plain (updateScript E cfg f)"
  unfolding updateScript_def Let_def
  by (auto intro!: appends_resolved appends_await appends_mkdirp appends_copyFile
        appends_logger plain_simps)

lemma appends_updateInclude: "appends plain (updateInclude E cfg f)"
  unfolding updateInclude_def Let_def
  by (auto intro!: appends_resolved appends_await appends_mkdirp appends_copyFile
        appends_logger plain_simps)

lemma appends_updateAsset: "appends plain (updateAsset E cfg f)"
  unfolding updateAsset_def Let_def
  by (auto intro!: appends_throw appends_await appends_mkdirp appends_copyFile
        appends_logger plain_simps split: option.splits)

lemma appends_compilePlugin: "appends plain (compilePlugin E cfg f)"
  unfolding compilePlugin_def Let_def
  by (auto intro!: appends_throw appends_await appends_mkdirp appends_amxxpc
        appends_logger plain_simps appends_forEach split: sum.splits)

lemma appends_updatePlugin: "appends plain (updatePlugin E cfg f)"
  unfolding updatePlugin_def
  by (intro appends_await appends_updateScript appends_compilePlugin)

lemma appends_mono: "appends P m \<Longrightarrow> (\<And>ev. P ev \<Longrightarrow> Q ev) \<Longrightarrow> appends Q m"
  unfolding appends_def list_all_iff by blast

lemma plain_not_terminal: "plain ev \<Longrightarrow> \<not> is_terminal ev"
  by (simp add: plain_def)

lemma Call_not_terminal: "\<not> is_terminal (Call m)"
  by (simp add: is_terminal_def terminal_line_def)

section \<open>The batch of scripts\<close>

lemma calls_append: "calls (w @ es) = calls w @ calls es"
  by (induction w rule: calls.induct) simp_all

lemma plain_no_calls: "list_all plain es \<Longrightarrow> calls es = []"
proof (induction es)
  case Nil
  show ?case by simp
next
  case (Cons ev es)
  then have "calls [ev] = []" and "calls es = []" by (simp_all add: plain_def)
  then show ?case using calls_append [of "[ev]" es] by simp
qed

lemma attempt_extends:
  "\<exists>es. snd (attempt E cfg f w) = w @ Call f # es \<and> list_all plain es"
  using appendsD [OF appends_updatePlugin, of E cfg f "w @ [Call f]"]
  by (auto simp: attempt_def)

lemma attempt_calls: "calls (snd (attempt E cfg f w)) = calls w @ [f]"
proof -
  from attempt_extends [of E cfg f w] obtain es where
    "snd (attempt E cfg f w) = w @ Call f # es" "list_all plain es" by auto
  then show ?thesis
    using calls_append [of w "Call f # es"] by (simp add: plain_no_calls)
qed

lemma run_files_calls: "calls (run_files E cfg fs w) = calls w @ fs"
  by (induction fs arbitrary: w) (simp_all add: attempt_calls)

lemma run_files_append:
  "run_files E cfg (xs @ ys) w = run_files E cfg ys (run_files E cfg xs w)"
  by (induction xs arbitrary: w) simp_all

lemma outcomes_append:
  "outcomes E cfg (xs @ ys) w = outcomes E cfg xs w @ outcomes E cfg ys (run_files E cfg xs w)"
  by (induction xs arbitrary: w) simp_all

lemma length_outcomes: "length (outcomes E cfg fs w) = length fs"
  by (induction fs arbitrary: w) simp_all

lemma invoke_buildSrc_cb:
  "invoke (buildSrc_cb E cfg options) f (b, w) =
     (case attempt E cfg f w of
        (Inr u, w') \<Rightarrow> (Inr (), (b, w'))
      | (Inl err, w') \<Rightarrow>
          if \<not> truthy_flag (ignoreErrors options) then (Inl err, (b, w'))
          else (Inr (), (False, w')))"
  by (simp add: invoke_def buildSrc_cb_def attempt_def split: prod.splits sum.splits)

lemma loop_ignoring:
  assumes "truthy_flag (ignoreErrors options)"
  shows "forEachMatch (buildSrc_cb E cfg options) fs (b, w) =
           (Inr (), (b \<and> list_all succeeded (outcomes E cfg fs w), run_files E cfg fs w))"
proof (induction fs arbitrary: b w)
  case Nil
  show ?case by simp
next
  case (Cons f fs)
  obtain r w' where a: "attempt E cfg f w = (r, w')" by (cases "attempt E cfg f w") auto
  show ?case
  proof (cases r)
    case (Inl e)
    with a assms Cons [of False w'] show ?thesis
      by (simp add: invoke_buildSrc_cb succeeded_def)
  next
    case (Inr u)
    with a assms Cons [of b w'] show ?thesis
      by (simp add: invoke_buildSrc_cb succeeded_def)
  qed
qed

lemma loop_strict_ok:
  assumes "\<not> truthy_flag (ignoreErrors options)"
  shows "list_all succeeded (outcomes E cfg fs w) \<Longrightarrow>
         forEachMatch (buildSrc_cb E cfg options) fs (b, w) = (Inr (), (b, run_files E cfg fs w))"
proof (induction fs arbitrary: w)
  case Nil
  show ?case by simp
next
  case (Cons f fs)
  obtain r w' where a: "attempt E cfg f w = (r, w')" by (cases "attempt E cfg f w") auto
  with Cons.prems obtain u where r: "r = Inr u"
    by (cases r) (simp_all add: succeeded_def)
  from Cons.prems a have "list_all succeeded (outcomes E cfg fs w')" by simp
  from Cons.IH [OF this] a r show ?case
    by (simp add: invoke_buildSrc_cb)
qed

lemma loop_strict_fail:
  assumes "\<not> truthy_flag (ignoreErrors options)"
  shows "list_all succeeded (outcomes E cfg pre w) \<Longrightarrow>
         fst (attempt E cfg f (run_files E cfg pre w)) = Inl e \<Longrightarrow>
         forEachMatch (buildSrc_cb E cfg options) (pre @ f # post) (b, w) =
           (Inl e, (b, run_files E cfg (pre @ [f]) w))"
proof (induction pre arbitrary: w)
  case Nil
  obtain r w' where a: "attempt E cfg f w = (r, w')" by (cases "attempt E cfg f w") auto
  with Nil assms show ?case by (simp add: invoke_buildSrc_cb)
next
  case (Cons g pre)
  obtain r w' where a: "attempt E cfg g w = (r, w')" by (cases "attempt E cfg g w") auto
  with Cons.prems obtain u where r: "r = Inr u"
    by (cases r) (simp_all add: succeeded_def)
  from Cons.prems a have 1: "list_all succeeded (outcomes E cfg pre w')" by simp
  from Cons.prems a have 2: "fst (attempt E cfg f (run_files E cfg pre w')) = Inl e" by simp
  from Cons.IH [OF 1 2] a r show ?case
    by (simp add: invoke_buildSrc_cb)
qed

lemma buildSrc_loop:
  "buildSrc E cfg options w =
     (case forEachMatch (buildSrc_cb E cfg options) (script_matches E cfg w) (True, w) of
        (Inl e, (success, w')) \<Rightarrow> (Inl e, w')
      | (Inr u, (success, w')) \<Rightarrow> (Inr success, w'))"
  by (simp add: buildSrc_def buildDir_def script_matches_def reduce_is_loop)

lemma outcomes_nth:
  "k < length fs \<Longrightarrow>
   outcomes E cfg fs w ! k = fst (attempt E cfg (fs ! k) (run_files E cfg (take k fs) w))"
proof (induction fs arbitrary: k w)
  case Nil
  then show ?case by simp
next
  case (Cons f fs)
  then show ?case by (cases k) simp_all
qed

lemma outcomes_take:
  "outcomes E cfg (take k fs) w = take k (outcomes E cfg fs w)"
proof (induction fs arbitrary: k w)
  case Nil
  show ?case by simp
next
  case (Cons f fs)
  then show ?case by (cases k) simp_all
qed

section \<open>Unfolding the builder on concrete inputs\<close>

lemmas builder_defs =
  buildSrc_def buildSrc_cb_def plain_cb_def
  buildDir_def scan_def reduce_matches_def then_step_def invoke_def
  updatePlugin_def compilePlugin_def plugin_destDir_def plugin_args_def
  logMessage_def message_path_def updateScript_def updateAsset_def updateInclude_def
  await_def resolved_def throw_def logger_def do_mkdirp_def do_copyFile_def do_amxxpc_def
  truthy_flag_def truthy_str_def castArray_def attempt_def script_matches_def
  succeeded_def

lemmas stub_defs =
  stub_env_def stub_cfg_def stub_resolve_def stub_join_def stub_base_def stub_dir_def
  stub_relative_cwd_def stub_find_def stub_amxxpc_def
  stub_findRelativePath_def stub_is_ancestor_def stub_relative_def

section \<open>The aggregate flag and the order of the attempts\<close>

lemma loop_strict:
  assumes "\<not> truthy_flag (ignoreErrors options)"
  shows "fst (forEachMatch (buildSrc_cb E cfg options) fs (b, w)) =
           (case first_failure (outcomes E cfg fs w) of None \<Rightarrow> Inr () | Some e \<Rightarrow> Inl e)
         \<and> fst (snd (forEachMatch (buildSrc_cb E cfg options) fs (b, w))) = b"
proof (induction fs arbitrary: w)
  case Nil
  show ?case by simp
next
  case (Cons f fs)
  obtain r w' where a: "attempt E cfg f w = (r, w')" by (cases "attempt E cfg f w") auto
  show ?case
  proof (cases r)
    case (Inl e)
    with a assms show ?thesis by (simp add: invoke_buildSrc_cb)
  next
    case (Inr u)
    with a assms Cons [of w'] show ?thesis by (simp add: invoke_buildSrc_cb)
  qed
qed

lemma buildSrc_fst:
  "fst (buildSrc E cfg options w) =
     (case fst (forEachMatch (buildSrc_cb E cfg options) (script_matches E cfg w) (True, w)) of
        Inl e \<Rightarrow> Inl e
      | Inr u \<Rightarrow> Inr (fst (snd (forEachMatch (buildSrc_cb E cfg options)
                                 (script_matches E cfg w) (True, w)))))"
  by (simp add: buildSrc_loop split: prod.splits sum.splits)

lemma buildSrc_snd:
  "snd (buildSrc E cfg options w) =
     snd (snd (forEachMatch (buildSrc_cb E cfg options) (script_matches E cfg w) (True, w)))"
  by (simp add: buildSrc_loop split: prod.splits sum.splits)

text \<open>
  Claim C1. Whatever \<open>ignoreErrors\<close> is, a value returned by \<open>buildSrc\<close> is true
  exactly when every file of the batch succeeded. With \<open>ignoreErrors\<close> set,
  \<open>buildSrc\<close> always returns, and its value is false as soon as one file failed. The
  compile of a file is the per-file action \<open>updatePlugin\<close>: the copy of the script, then
  the compiler.
\<close>

theorem buildSrc_aggregate:
  "(\<forall>b. fst (buildSrc E cfg options w) = Inr b \<longrightarrow>
         b = list_all succeeded (outcomes E cfg (script_matches E cfg w) w))
   \<and> (truthy_flag (ignoreErrors options) \<longrightarrow>
         fst (buildSrc E cfg options w) =
           Inr (list_all succeeded (outcomes E cfg (script_matches E cfg w) w)))"
proof (cases "truthy_flag (ignoreErrors options)")
  case True
  then show ?thesis
    by (simp add: buildSrc_fst loop_ignoring)
next
  case False
  have ff: "first_failure rs = None \<Longrightarrow> list_all succeeded rs" for rs
    by (induction rs rule: first_failure.induct) (simp_all add: succeeded_def)
  from False loop_strict [OF False, of E cfg "script_matches E cfg w" True w] ff
  show ?thesis
    by (auto simp: buildSrc_fst split: option.splits)
qed

text \<open>
  With the compiler rejecting the second script and \<open>ignoreErrors\<close> set, the value is
  false; with no script rejected it is true.
\<close>

theorem buildSrc_aggregate_witness:
  "fst (buildSrc (stub_env [''/p/src/m/b.sma'']) (stub_cfg True) \<lparr>ignoreErrors = Some True\<rparr> [])
     = Inr False
   \<and> \<not> list_all succeeded
         (outcomes (stub_env [''/p/src/m/b.sma'']) (stub_cfg True)
            (script_matches (stub_env [''/p/src/m/b.sma'']) (stub_cfg True) []) [])
   \<and> fst (buildSrc (stub_env []) (stub_cfg True) \<lparr>ignoreErrors = Some False\<rparr> []) = Inr True
   \<and> list_all succeeded
         (outcomes (stub_env []) (stub_cfg True)
            (script_matches (stub_env []) (stub_cfg True) []) [])"
  using buildSrc_aggregate [of "stub_env [''/p/src/m/b.sma'']" "stub_cfg True"
      "\<lparr>ignoreErrors = Some True\<rparr>" "[]"]
    buildSrc_aggregate [of "stub_env []" "stub_cfg True" "\<lparr>ignoreErrors = Some False\<rparr>" "[]"]
  by (simp add: builder_defs stub_defs Let_def)

text \<open>
  Claim C3. Let \<open>ignoreErrors\<close> be false or absent, and let the file at position \<open>k\<close>
  of the scan (counted from 0) be the first to fail. Then \<open>buildSrc\<close> raises that
  failure, the world is the one left by attempting the files up to and including that
  one, each once and in order, and the callback was invoked on exactly these files, once
  each: no file after the failing one is attempted.
\<close>

theorem buildSrc_stops_at_first_failure:
  assumes strict: "\<not> truthy_flag (ignoreErrors options)"
    and k: "k < length (script_matches E cfg w)"
    and before: "\<forall>i<k. succeeded (outcomes E cfg (script_matches E cfg w) w ! i)"
    and fails: "outcomes E cfg (script_matches E cfg w) w ! k = Inl e"
  shows "buildSrc E cfg options w =
           (Inl e, run_files E cfg (take (Suc k) (script_matches E cfg w)) w)
         \<and> calls (snd (buildSrc E cfg options w)) =
             calls w @ take (Suc k) (script_matches E cfg w)"
proof -
  let ?ms = "script_matches E cfg w"
  let ?pre = "take k ?ms" and ?f = "?ms ! k" and ?post = "drop (Suc k) ?ms"
  have split: "?ms = ?pre @ ?f # ?post"
    using k by (simp add: id_take_nth_drop)
  have pre_ok: "list_all succeeded (outcomes E cfg ?pre w)"
    unfolding outcomes_take list_all_length using before k by (simp add: length_outcomes)
  have f_fails: "fst (attempt E cfg ?f (run_files E cfg ?pre w)) = Inl e"
    using fails outcomes_nth [OF k, of E cfg w] by simp
  have "forEachMatch (buildSrc_cb E cfg options) (?pre @ ?f # ?post) (True, w) =
          (Inl e, (True, run_files E cfg (?pre @ [?f]) w))"
    by (rule loop_strict_fail [OF strict pre_ok f_fails])
  moreover have "?pre @ [?f] = take (Suc k) ?ms"
    using k by (simp add: take_Suc_conv_app_nth)
  ultimately have run: "buildSrc E cfg options w = (Inl e, run_files E cfg (take (Suc k) ?ms) w)"
    using split by (simp add: buildSrc_loop)
  then show ?thesis
    by (simp add: run_files_calls)
qed

text \<open>Three scripts, the compiler rejects the second: the third is never attempted.\<close>

theorem buildSrc_stops_at_first_failure_witness:
  "buildSrc (stub_env [''/p/src/m/b.sma'']) (stub_cfg True) \<lparr>ignoreErrors = Some False\<rparr> [] =
     (Inl (FailedToCompile ''src/m/b.sma'' ''1 Error.''),
      run_files (stub_env [''/p/src/m/b.sma'']) (stub_cfg True) [''src/a.sma'', ''src/m/b.sma''] [])
   \<and> calls (snd (buildSrc (stub_env [''/p/src/m/b.sma'']) (stub_cfg True)
                   \<lparr>ignoreErrors = Some False\<rparr> []))
       = [''src/a.sma'', ''src/m/b.sma'']
   \<and> script_matches (stub_env [''/p/src/m/b.sma'']) (stub_cfg True) []
       = [''src/a.sma'', ''src/m/b.sma'', ''src/c.sma'']"
proof -
  let ?E = "stub_env [''/p/src/m/b.sma'']"
  have ms: "script_matches ?E (stub_cfg True) [] = [''src/a.sma'', ''src/m/b.sma'', ''src/c.sma'']"
    by (simp add: builder_defs stub_defs)
  have outs: "outcomes ?E (stub_cfg True) (script_matches ?E (stub_cfg True) []) [] =
      [Inr (), Inl (FailedToCompile ''src/m/b.sma'' ''1 Error.''), Inr ()]"
    by (simp add: builder_defs stub_defs Let_def)
  have strict: "\<not> truthy_flag (ignoreErrors \<lparr>ignoreErrors = Some False\<rparr>)"
    by (simp add: truthy_flag_def)
  have k: "Suc 0 < length (script_matches ?E (stub_cfg True) [])"
    by (simp add: ms)
  have before: "\<forall>i<Suc 0. succeeded (outcomes ?E (stub_cfg True) (script_matches ?E (stub_cfg True) []) [] ! i)"
    by (simp add: outs succeeded_def)
  have fails: "outcomes ?E (stub_cfg True) (script_matches ?E (stub_cfg True) []) [] ! Suc 0 =
      Inl (FailedToCompile ''src/m/b.sma'' ''1 Error.'')"
    by (simp add: outs)
  from buildSrc_stops_at_first_failure [OF strict k before fails] ms
  show ?thesis by (simp del: run_files.simps outcomes.simps add: run_files_calls)
qed

text \<open>
  Claim C4. With \<open>ignoreErrors\<close> set, \<open>buildSrc\<close> returns; every matched file was
  attempted exactly once, in scan order, also after a failure; and the value returned is
  false exactly when some file failed.
\<close>

theorem buildSrc_ignoring_errors:
  assumes "truthy_flag (ignoreErrors options)"
  shows "buildSrc E cfg options w =
           (Inr (list_all succeeded (outcomes E cfg (script_matches E cfg w) w)),
            run_files E cfg (script_matches E cfg w) w)
         \<and> calls (snd (buildSrc E cfg options w)) = calls w @ script_matches E cfg w"
  using assms by (simp add: buildSrc_loop loop_ignoring run_files_calls)

text \<open>The compiler rejects the first of three scripts: all three are attempted.\<close>

theorem buildSrc_ignoring_errors_witness:
  "buildSrc (stub_env [''/p/src/a.sma'']) (stub_cfg True) \<lparr>ignoreErrors = Some True\<rparr> [] =
     (Inr False,
      run_files (stub_env [''/p/src/a.sma'']) (stub_cfg True)
        [''src/a.sma'', ''src/m/b.sma'', ''src/c.sma''] [])
   \<and> calls (snd (buildSrc (stub_env [''/p/src/a.sma'']) (stub_cfg True)
                   \<lparr>ignoreErrors = Some True\<rparr> []))
       = [''src/a.sma'', ''src/m/b.sma'', ''src/c.sma'']"
proof -
  let ?E = "stub_env [''/p/src/a.sma'']"
  have ms: "script_matches ?E (stub_cfg True) [] = [''src/a.sma'', ''src/m/b.sma'', ''src/c.sma'']"
    by (simp add: builder_defs stub_defs)
  have outs: "outcomes ?E (stub_cfg True) (script_matches ?E (stub_cfg True) []) [] =
      [Inl (FailedToCompile ''src/a.sma'' ''1 Error.''), Inr (), Inr ()]"
    by (simp add: builder_defs stub_defs Let_def)
  have flag: "truthy_flag (ignoreErrors \<lparr>ignoreErrors = Some True\<rparr>)"
    by (simp add: truthy_flag_def)
  have "\<not> list_all succeeded (outcomes ?E (stub_cfg True) (script_matches ?E (stub_cfg True) []) [])"
    by (simp add: outs succeeded_def)
  with buildSrc_ignoring_errors [OF flag, of ?E "stub_cfg True" "[]"] ms
  show ?thesis by (simp del: run_files.simps outcomes.simps add: run_files_calls)
qed

text \<open>
  Claim C10. With \<open>ignoreErrors\<close> false or absent, \<open>buildSrc\<close> never returns false: it
  returns true when no file fails, and raises the first failure otherwise.
\<close>

theorem buildSrc_strict_never_false:
  assumes "\<not> truthy_flag (ignoreErrors options)"
  shows "fst (buildSrc E cfg options w) \<noteq> Inr False
         \<and> fst (buildSrc E cfg options w) =
             (case first_failure (outcomes E cfg (script_matches E cfg w) w) of
                None \<Rightarrow> Inr True
              | Some e \<Rightarrow> Inl e)"
  using loop_strict [OF assms, of E cfg "script_matches E cfg w" True w]
  by (simp add: buildSrc_fst split: option.splits)

text \<open>An absent flag: the failure of the third script is raised; with no failure, true.\<close>

theorem buildSrc_strict_never_false_witness:
  "fst (buildSrc (stub_env [''/p/src/c.sma'']) (stub_cfg True) \<lparr>ignoreErrors = None\<rparr> [])
     = Inl (FailedToCompile ''src/c.sma'' ''1 Error.'')
   \<and> fst (buildSrc (stub_env []) (stub_cfg True) \<lparr>ignoreErrors = None\<rparr> []) = Inr True"
proof -
  have strict: "\<not> truthy_flag (ignoreErrors \<lparr>ignoreErrors = None\<rparr>)"
    by (simp add: truthy_flag_def)
  have 1: "first_failure (outcomes (stub_env [''/p/src/c.sma'']) (stub_cfg True)
             (script_matches (stub_env [''/p/src/c.sma'']) (stub_cfg True) []) []) =
           Some (FailedToCompile ''src/c.sma'' ''1 Error.'')"
    by (simp add: builder_defs stub_defs Let_def)
  have 2: "first_failure (outcomes (stub_env []) (stub_cfg True)
             (script_matches (stub_env []) (stub_cfg True) []) []) = None"
    by (simp add: builder_defs stub_defs Let_def)
  from buildSrc_strict_never_false [OF strict, of "stub_env [''/p/src/c.sma'']" "stub_cfg True" "[]"]
    buildSrc_strict_never_false [OF strict, of "stub_env []" "stub_cfg True" "[]"] 1 2
  show ?thesis by simp
qed

lemma forEachMatch_calls:
  assumes cb: "\<And>m s. calls (snd (snd (cb m s))) = calls (snd s)"
  shows "\<exists>n\<le>length ms.
           calls (snd (snd (forEachMatch cb ms s))) = calls (snd s) @ take n ms
           \<and> (fst (forEachMatch cb ms s) = Inr () \<longrightarrow> n = length ms)"
proof (induction ms arbitrary: s)
  case Nil
  show ?case by simp
next
  case (Cons m ms)
  obtain r s' where step: "invoke cb m s = (r, s')"
    by (cases "invoke cb m s") auto
  from cb [of m "(fst s, snd s @ [Call m])"] step
  have c: "calls (snd s') = calls (snd s) @ [m]"
    by (simp add: invoke_def calls_append)
  show ?case
  proof (cases r)
    case (Inl e)
    with step c have
      "calls (snd (snd (forEachMatch cb (m # ms) s))) = calls (snd s) @ take (Suc 0) (m # ms)
       \<and> (fst (forEachMatch cb (m # ms) s) = Inr () \<longrightarrow> Suc 0 = length (m # ms))"
      by simp
    moreover have "Suc 0 \<le> length (m # ms)" by simp
    ultimately show ?thesis by blast
  next
    case (Inr u)
    from Cons [of s'] obtain n where
      n: "n \<le> length ms"
         "calls (snd (snd (forEachMatch cb ms s'))) = calls (snd s') @ take n ms"
         "fst (forEachMatch cb ms s') = Inr () \<longrightarrow> n = length ms"
      by blast
    with Inr step c have
      "calls (snd (snd (forEachMatch cb (m # ms) s))) = calls (snd s) @ take (Suc n) (m # ms)
       \<and> (fst (forEachMatch cb (m # ms) s) = Inr () \<longrightarrow> Suc n = length (m # ms))"
      by simp
    moreover from n have "Suc n \<le> length (m # ms)" by simp
    ultimately show ?thesis by blast
  qed
qed

lemma plain_cb_calls:
  assumes "appends plain (f m)"
  shows "calls (snd (snd (plain_cb f m s))) = calls (snd s)"
proof -
  from appendsD [OF assms, of "snd s"] obtain es where
    "snd (f m (snd s)) = snd s @ es" "list_all plain es" by auto
  then show ?thesis
    by (auto simp: plain_cb_def calls_append plain_no_calls split: prod.splits)
qed

text \<open>
  Claim C5. \<open>buildDir\<close> is the sequential loop over the matches: the promise chain
  built by \<open>reduce\<close> invokes the callback on the matches one at a time in scan order,
  the invocation on a match starting in the state in which the one on the match before
  it completed, and not at all once an invocation has failed. For a callback that
  leaves the marks of the invocations alone, the invocations made are those on an
  initial stretch of the matches, once each and in scan order, and on all the matches
  when \<open>buildDir\<close> succeeds.
\<close>

theorem buildDir_sequential:
  "buildDir E baseDir pattern cb s = forEachMatch cb (scan E baseDir pattern (snd s)) s
   \<and> ((\<forall>m s'. calls (snd (snd (cb m s'))) = calls (snd s')) \<longrightarrow>
        (\<exists>n\<le>length (scan E baseDir pattern (snd s)).
           calls (snd (snd (buildDir E baseDir pattern cb s))) =
             calls (snd s) @ take n (scan E baseDir pattern (snd s))
           \<and> (fst (buildDir E baseDir pattern cb s) = Inr () \<longrightarrow>
                n = length (scan E baseDir pattern (snd s)))))"
proof (intro conjI impI)
  show eq: "buildDir E baseDir pattern cb s = forEachMatch cb (scan E baseDir pattern (snd s)) s"
    by (simp add: buildDir_def reduce_is_loop)
  assume "\<forall>m s'. calls (snd (snd (cb m s'))) = calls (snd s')"
  then have cb: "\<And>m s'. calls (snd (snd (cb m s'))) = calls (snd s')" by blast
  from forEachMatch_calls [of cb "scan E baseDir pattern (snd s)" s, OF cb]
  show "\<exists>n\<le>length (scan E baseDir pattern (snd s)).
           calls (snd (snd (buildDir E baseDir pattern cb s))) =
             calls (snd s) @ take n (scan E baseDir pattern (snd s))
           \<and> (fst (buildDir E baseDir pattern cb s) = Inr () \<longrightarrow>
                n = length (scan E baseDir pattern (snd s)))"
    unfolding eq .
qed

text \<open>
  The scripts and the include files of the stub: the callback is invoked on the three
  scripts in scan order, and each invocation's effects follow its mark.
\<close>

theorem buildDir_sequential_witness:
  "calls (snd (snd (buildDir (stub_env []) ''src'' ''*.sma''
                      (plain_cb (updateScript (stub_env []) (stub_cfg True))) ((), []))))
     = [''src/a.sma'', ''src/m/b.sma'', ''src/c.sma'']
   \<and> scan (stub_env []) ''src'' ''*.sma'' [] = [''src/a.sma'', ''src/m/b.sma'', ''src/c.sma'']
   \<and> snd (snd (buildDir (stub_env []) ''inc'' ''*.inc''
                 (plain_cb (updateInclude (stub_env []) (stub_cfg True))) ((), []))) =
       [Call ''inc/u.inc'', Mkdirp ''o/i'', CopyFile ''/p/inc/u.inc'' ''o/i/u.inc'',
        Log Info [Str ''Include updated:'', Str ''o/i/u.inc'']]"
proof -
  let ?cb = "plain_cb (updateScript (stub_env []) (stub_cfg True))"
  have cb: "\<forall>m s'. calls (snd (snd (?cb m s'))) = calls (snd s')"
    by (intro allI plain_cb_calls appends_updateScript)
  have sc: "scan (stub_env []) ''src'' ''*.sma'' [] = [''src/a.sma'', ''src/m/b.sma'', ''src/c.sma'']"
    by (simp add: builder_defs stub_defs)
  have ok: "fst (buildDir (stub_env []) ''src'' ''*.sma'' ?cb ((), [])) = Inr ()"
    by (simp add: builder_defs stub_defs Let_def)
  have inc: "snd (snd (buildDir (stub_env []) ''inc'' ''*.inc''
                 (plain_cb (updateInclude (stub_env []) (stub_cfg True))) ((), []))) =
       [Call ''inc/u.inc'', Mkdirp ''o/i'', CopyFile ''/p/inc/u.inc'' ''o/i/u.inc'',
        Log Info [Str ''Include updated:'', Str ''o/i/u.inc'']]"
    by (simp add: builder_defs stub_defs Let_def)
  from buildDir_sequential [of "stub_env []" "''src''" "''*.sma''" ?cb "((), [])"] cb
  obtain n where
    "calls (snd (snd (buildDir (stub_env []) ''src'' ''*.sma'' ?cb ((), [])))) =
       calls (snd ((), [])) @ take n (scan (stub_env []) ''src'' ''*.sma'' (snd ((), [])))"
    "fst (buildDir (stub_env []) ''src'' ''*.sma'' ?cb ((), [])) = Inr () \<longrightarrow>
       n = length (scan (stub_env []) ''src'' ''*.sma'' (snd ((), [])))"
    by blast
  with ok sc inc show ?thesis by simp
qed

section \<open>Compiling one script\<close>





lemma compilePlugin_mkdirp_fails:
  "plugin_destDir E cfg filePath = Inr d \<Longrightarrow> mkdirp E d w = Some msg \<Longrightarrow>
   compilePlugin E cfg filePath w = (Inl (IOFailure msg), w)"
  by (simp add: compilePlugin_def Let_def await_def do_mkdirp_def)


lemma logMessage_line: "logMessage E rel m w = w @ [diagnostic_line E rel m]"
  by (cases "msg_type m") (simp_all add: logMessage_def diagnostic_line_def Let_def)

lemma forEach_logMessage_lines:
  "forEach (logMessage E rel) ms w = w @ map (diagnostic_line E rel) ms"
  by (induction ms arbitrary: w) (simp_all add: logMessage_line)

lemma compilePlugin_exact:
  assumes dir: "plugin_destDir E cfg filePath = Inr destDir"
    and mk: "mkdirp E destDir w = None"
  shows "compilePlugin E cfg filePath w =
      (if res_success (amxxpc E (plugin_args E cfg filePath destDir) (w @ [Mkdirp destDir]))
       then (Inr (),
             w @ [Mkdirp destDir, Amxxpc (plugin_args E cfg filePath destDir)]
               @ map (diagnostic_line E (path_relative_cwd E (path_resolve E filePath)))
                   (res_messages (amxxpc E (plugin_args E cfg filePath destDir)
                                    (w @ [Mkdirp destDir])))
               @ [Log Success [Str ''Compilation success:'',
                               Str (normalizePath E (path_relative_cwd E filePath))],
                  Log Info [Str ''Plugin updated:'',
                            Str (normalizePath E (path_join E destDir
                              (res_plugin (amxxpc E (plugin_args E cfg filePath destDir)
                                 (w @ [Mkdirp destDir])))))]])
       else (Inl (FailedToCompile
                   (normalizePath E (path_relative_cwd E (path_resolve E filePath)))
                   (res_error (amxxpc E (plugin_args E cfg filePath destDir)
                                 (w @ [Mkdirp destDir])))),
             w @ [Mkdirp destDir, Amxxpc (plugin_args E cfg filePath destDir)]
               @ map (diagnostic_line E (path_relative_cwd E (path_resolve E filePath)))
                   (res_messages (amxxpc E (plugin_args E cfg filePath destDir)
                                    (w @ [Mkdirp destDir])))))"
  using dir mk
  by (simp add: compilePlugin_def Let_def await_def do_mkdirp_def do_amxxpc_def logger_def
        throw_def forEach_logMessage_lines)

text \<open>
  Claim C6. When \<open>compilePlugin\<close> reaches the compiler, what it does after the call is
  fixed by the result: every message of the result is logged, in order, as the line the
  specification gives it (a message of type \<open>FatalError\<close> or \<open>Error\<close> at the error
  level, a \<open>Warning\<close> at the warning level, an \<open>Echo\<close> at the debug level, each with
  the message's own text), and nothing else is logged but the two lines of a success.
  Whatever the messages are, the operation fails exactly when the \<open>success\<close> flag of
  the result is false, and then with the result's error.
\<close>

theorem compilePlugin_diagnostics:
  assumes dir: "plugin_destDir E cfg filePath = Inr destDir"
    and mk: "mkdirp E destDir w = None"
  shows "compilePlugin E cfg filePath w =
      (if res_success (amxxpc E (plugin_args E cfg filePath destDir) (w @ [Mkdirp destDir]))
       then Inr ()
       else Inl (FailedToCompile
                   (normalizePath E (path_relative_cwd E (path_resolve E filePath)))
                   (res_error (amxxpc E (plugin_args E cfg filePath destDir)
                                 (w @ [Mkdirp destDir])))),
       w @ [Mkdirp destDir, Amxxpc (plugin_args E cfg filePath destDir)]
         @ map (diagnostic_line E (path_relative_cwd E (path_resolve E filePath)))
             (res_messages (amxxpc E (plugin_args E cfg filePath destDir)
                              (w @ [Mkdirp destDir])))
         @ (if res_success (amxxpc E (plugin_args E cfg filePath destDir)
                              (w @ [Mkdirp destDir]))
            then [Log Success [Str ''Compilation success:'',
                               Str (normalizePath E (path_relative_cwd E filePath))],
                  Log Info [Str ''Plugin updated:'',
                            Str (normalizePath E (path_join E destDir
                              (res_plugin (amxxpc E (plugin_args E cfg filePath destDir)
                                 (w @ [Mkdirp destDir])))))]]
            else []))
    \<and> (\<forall>scriptPath m.
          level_of (diagnostic_line E scriptPath m) = Some (severity_level (msg_type m))
          \<and> (msg_type m = FatalError \<or> msg_type m = Error \<longrightarrow>
                diagnostic_line E scriptPath m =
                  Log Err [Loc (normalizePath E (message_path E scriptPath m)) (msg_startLine m),
                           Ty (msg_type m), Code (msg_code m), Str '':'', Str (msg_text m)])
          \<and> (msg_type m = Warning \<longrightarrow>
                diagnostic_line E scriptPath m =
                  Log Warn [Loc (normalizePath E (message_path E scriptPath m)) (msg_startLine m),
                            Ty (msg_type m), Code (msg_code m), Str '':'', Str (msg_text m)])
          \<and> (msg_type m = Echo \<longrightarrow>
                diagnostic_line E scriptPath m = Log Debug [Str (msg_text m)]))
    \<and> ((\<exists>e. fst (compilePlugin E cfg filePath w) = Inl e) \<longleftrightarrow>
          \<not> res_success (amxxpc E (plugin_args E cfg filePath destDir)
                            (w @ [Mkdirp destDir])))"
proof (intro conjI allI)
  show "compilePlugin E cfg filePath w =
      (if res_success (amxxpc E (plugin_args E cfg filePath destDir) (w @ [Mkdirp destDir]))
       then Inr ()
       else Inl (FailedToCompile
                   (normalizePath E (path_relative_cwd E (path_resolve E filePath)))
                   (res_error (amxxpc E (plugin_args E cfg filePath destDir)
                                 (w @ [Mkdirp destDir])))),
       w @ [Mkdirp destDir, Amxxpc (plugin_args E cfg filePath destDir)]
         @ map (diagnostic_line E (path_relative_cwd E (path_resolve E filePath)))
             (res_messages (amxxpc E (plugin_args E cfg filePath destDir)
                              (w @ [Mkdirp destDir])))
         @ (if res_success (amxxpc E (plugin_args E cfg filePath destDir)
                              (w @ [Mkdirp destDir]))
            then [Log Success [Str ''Compilation success:'',
                               Str (normalizePath E (path_relative_cwd E filePath))],
                  Log Info [Str ''Plugin updated:'',
                            Str (normalizePath E (path_join E destDir
                              (res_plugin (amxxpc E (plugin_args E cfg filePath destDir)
                                 (w @ [Mkdirp destDir])))))]]
            else []))"
    by (simp add: compilePlugin_exact [OF dir mk])
  show "(\<exists>e. fst (compilePlugin E cfg filePath w) = Inl e) \<longleftrightarrow>
          \<not> res_success (amxxpc E (plugin_args E cfg filePath destDir)
                            (w @ [Mkdirp destDir]))"
    by (simp add: compilePlugin_exact [OF dir mk])
next
  fix scriptPath m
  show "level_of (diagnostic_line E scriptPath m) = Some (severity_level (msg_type m))"
    by (simp add: diagnostic_line_def)
  show "msg_type m = FatalError \<or> msg_type m = Error \<longrightarrow>
          diagnostic_line E scriptPath m =
            Log Err [Loc (normalizePath E (message_path E scriptPath m)) (msg_startLine m),
                     Ty (msg_type m), Code (msg_code m), Str '':'', Str (msg_text m)]"
    by (auto simp: diagnostic_line_def)
  show "msg_type m = Warning \<longrightarrow>
          diagnostic_line E scriptPath m =
            Log Warn [Loc (normalizePath E (message_path E scriptPath m)) (msg_startLine m),
                      Ty (msg_type m), Code (msg_code m), Str '':'', Str (msg_text m)]"
    by (simp add: diagnostic_line_def)
  show "msg_type m = Echo \<longrightarrow> diagnostic_line E scriptPath m = Log Debug [Str (msg_text m)]"
    by (simp add: diagnostic_line_def)
qed

text \<open>
  The compiler rejects a script with a warning and an error: the two messages are logged
  at their levels with their texts, no line of success follows and the operation fails
  with the compiler's error. A script it accepts: the echo is logged at the debug level,
  the two lines of success follow and the operation succeeds.
\<close>

theorem compilePlugin_diagnostics_witness:
  "compilePlugin (stub_env [''/p/src/m/b.sma'']) (stub_cfg True) ''src/m/b.sma'' [] =
     (Inl (FailedToCompile ''src/m/b.sma'' ''1 Error.''),
      [Mkdirp ''/p/o/p'',
       Amxxpc \<lparr>arg_path = ''/p/src/m/b.sma'', arg_dest = ''/p/o/p'',
               arg_compiler = ''cc/amxxpc'', arg_includeDir = [''cc/include'', ''inc'']\<rparr>,
       Log Warn [Loc ''src/m/b.sma'' (Some 7), Ty Warning, Code (Some ''217''), Str '':'',
                 Str ''loose indentation''],
       Log Err [Loc ''src/m/b.sma'' (Some 9), Ty Error, Code (Some ''017''), Str '':'',
                Str ''undefined symbol'']])
   \<and> compilePlugin (stub_env [''/p/src/m/b.sma'']) (stub_cfg True) ''src/a.sma'' [] =
     (Inr (),
      [Mkdirp ''/p/o/p'',
       Amxxpc \<lparr>arg_path = ''/p/src/a.sma'', arg_dest = ''/p/o/p'',
               arg_compiler = ''cc/amxxpc'', arg_includeDir = [''cc/include'', ''inc'']\<rparr>,
       Log Debug [Str ''Done.''],
       Log Success [Str ''Compilation success:'', Str ''src/a.sma''],
       Log Info [Str ''Plugin updated:'', Str ''/p/o/p/a.amxx'']])"
proof -
  let ?E = "stub_env [''/p/src/m/b.sma'']"
  have dir: "plugin_destDir ?E (stub_cfg True) f = Inr ''/p/o/p''" for f
    by (simp add: builder_defs stub_defs)
  have mk: "mkdirp ?E ''/p/o/p'' [] = None"
    by (simp add: stub_defs)
  have b: "map (diagnostic_line ?E (path_relative_cwd ?E (path_resolve ?E ''src/m/b.sma'')))
             (res_messages (amxxpc ?E (plugin_args ?E (stub_cfg True) ''src/m/b.sma'' ''/p/o/p'')
                              ([] @ [Mkdirp ''/p/o/p'']))) =
           [Log Warn [Loc ''src/m/b.sma'' (Some 7), Ty Warning, Code (Some ''217''), Str '':'',
                      Str ''loose indentation''],
            Log Err [Loc ''src/m/b.sma'' (Some 9), Ty Error, Code (Some ''017''), Str '':'',
                     Str ''undefined symbol'']]"
    by (simp add: builder_defs stub_defs diagnostic_line_def)
  have a: "map (diagnostic_line ?E (path_relative_cwd ?E (path_resolve ?E ''src/a.sma'')))
             (res_messages (amxxpc ?E (plugin_args ?E (stub_cfg True) ''src/a.sma'' ''/p/o/p'')
                              ([] @ [Mkdirp ''/p/o/p'']))) =
           [Log Debug [Str ''Done.'']]"
    by (simp add: builder_defs stub_defs diagnostic_line_def)
  from compilePlugin_diagnostics [OF dir mk, of "''src/m/b.sma''"]
       compilePlugin_diagnostics [OF dir mk, of "''src/a.sma''"] a b
  show ?thesis
    by (simp add: stub_defs plugin_args_def castArray_def)
qed

lemma resolveRelative_None:
  "\<forall>b\<in>set basePaths. \<not> is_ancestor b target \<Longrightarrow>
   resolveRelative is_ancestor relative basePaths target = None"
  by (induction basePaths) simp_all

lemma do_mkdirp_resolver: "do_mkdirp (E\<lparr>findRelativePath := r\<rparr>) = do_mkdirp E"
  by (intro ext) (simp add: do_mkdirp_def)

lemma do_amxxpc_resolver: "do_amxxpc (E\<lparr>findRelativePath := r\<rparr>) = do_amxxpc E"
  by (intro ext) (simp add: do_amxxpc_def)

lemma message_path_resolver: "message_path (E\<lparr>findRelativePath := r\<rparr>) = message_path E"
  by (intro ext) (simp add: message_path_def split: option.splits)

lemma logMessage_resolver: "logMessage (E\<lparr>findRelativePath := r\<rparr>) = logMessage E"
  by (intro ext) (simp add: logMessage_def message_path_resolver Let_def)

lemma compilePlugin_flat_resolver:
  assumes flat: "rules_flatCompilation cfg"
  shows "compilePlugin (E\<lparr>findRelativePath := r\<rparr>) (cfg\<lparr>input_scripts := s\<rparr>) filePath w =
         compilePlugin E cfg filePath w"
proof -
  have d1: "plugin_destDir (E\<lparr>findRelativePath := r\<rparr>) (cfg\<lparr>input_scripts := s\<rparr>) filePath =
      Inr (path_resolve E (output_plugins cfg))"
    using flat by (simp add: plugin_destDir_def)
  have d2: "plugin_destDir E cfg filePath = Inr (path_resolve E (output_plugins cfg))"
    using flat by (simp add: plugin_destDir_def)
  have args: "plugin_args (E\<lparr>findRelativePath := r\<rparr>) (cfg\<lparr>input_scripts := s\<rparr>) filePath d =
      plugin_args E cfg filePath d" for d
    by (simp add: plugin_args_def)
  show ?thesis
    by (simp add: compilePlugin_def d1 d2 args do_mkdirp_resolver do_amxxpc_resolver
          logMessage_resolver Let_def cong: if_cong)
qed

text \<open>
  Claim C7, as amended. Let \<open>findRelativePath\<close> be the resolver of the specification.
  An asset of which no configured assets directory is an ancestor is not copied:
  \<open>updateAsset\<close> raises for it and does nothing else. With the flat rule off, a script
  of which no configured scripts directory is an ancestor is not compiled:
  \<open>compilePlugin\<close> raises for it and does nothing else (the resolver is asked about the
  directory of the script, and an ancestor of that directory is an ancestor of the
  script). With the flat rule on, \<open>compilePlugin\<close> does not consult the base
  directories: the destination is the resolved plugins output directory, the run is the
  same whatever the resolver and the scripts directories are, and no missing relative
  path is ever raised.
\<close>

theorem missing_base_directory_raises:
  assumes resolver: "findRelativePath E = resolveRelative is_ancestor relative"
    and dir: "\<forall>b\<in>set (castArray (input_scripts cfg)).
                is_ancestor b (path_dir E (path_resolve E filePath)) \<longrightarrow> is_ancestor b filePath"
  shows "((\<forall>b\<in>set (castArray (input_assets cfg)). \<not> is_ancestor b filePath) \<longrightarrow>
            updateAsset E cfg filePath w = (Inl (NoRelativePathAsset filePath), w))
    \<and> (\<not> rules_flatCompilation cfg
         \<and> (\<forall>b\<in>set (castArray (input_scripts cfg)). \<not> is_ancestor b filePath) \<longrightarrow>
            compilePlugin E cfg filePath w = (Inl (NoRelativePathPlugin filePath), w))
    \<and> (rules_flatCompilation cfg \<longrightarrow>
            plugin_destDir E cfg filePath = Inr (path_resolve E (output_plugins cfg))
            \<and> (\<forall>r s. compilePlugin (E\<lparr>findRelativePath := r\<rparr>) (cfg\<lparr>input_scripts := s\<rparr>)
                         filePath w = compilePlugin E cfg filePath w)
            \<and> (\<forall>p. fst (compilePlugin E cfg filePath w) \<noteq> Inl (NoRelativePathPlugin p)))"
proof (intro conjI impI allI)
  assume "\<forall>b\<in>set (castArray (input_assets cfg)). \<not> is_ancestor b filePath"
  then have "findRelativePath E (castArray (input_assets cfg)) filePath = None"
    unfolding resolver by (rule resolveRelative_None)
  then show "updateAsset E cfg filePath w = (Inl (NoRelativePathAsset filePath), w)"
    by (simp add: updateAsset_def Let_def throw_def)
next
  assume a: "\<not> rules_flatCompilation cfg
         \<and> (\<forall>b\<in>set (castArray (input_scripts cfg)). \<not> is_ancestor b filePath)"
  with dir have "\<forall>b\<in>set (castArray (input_scripts cfg)).
      \<not> is_ancestor b (path_dir E (path_resolve E filePath))"
    by blast
  then have "findRelativePath E (castArray (input_scripts cfg))
      (path_dir E (path_resolve E filePath)) = None"
    unfolding resolver by (rule resolveRelative_None)
  with a show "compilePlugin E cfg filePath w = (Inl (NoRelativePathPlugin filePath), w)"
    by (simp add: compilePlugin_def plugin_destDir_def Let_def throw_def)
next
  assume flat: "rules_flatCompilation cfg"
  then show d: "plugin_destDir E cfg filePath = Inr (path_resolve E (output_plugins cfg))"
    by (simp add: plugin_destDir_def)
  fix r s
  from flat show "compilePlugin (E\<lparr>findRelativePath := r\<rparr>) (cfg\<lparr>input_scripts := s\<rparr>)
                    filePath w = compilePlugin E cfg filePath w"
    by (rule compilePlugin_flat_resolver)
next
  fix p
  assume flat: "rules_flatCompilation cfg"
  then have d: "plugin_destDir E cfg filePath = Inr (path_resolve E (output_plugins cfg))"
    by (simp add: plugin_destDir_def)
  show "fst (compilePlugin E cfg filePath w) \<noteq> Inl (NoRelativePathPlugin p)"
  proof (cases "mkdirp E (path_resolve E (output_plugins cfg)) w")
    case None
    show ?thesis by (simp add: compilePlugin_exact [OF d None])
  next
    case (Some msg)
    show ?thesis by (simp add: compilePlugin_mkdirp_fails [OF d Some])
  qed
qed

text \<open>
  An asset and a script in a directory that is neither the assets nor the scripts
  directory: the copy raises, the compile raises with the flat rule off, and with the
  flat rule on the script goes to the plugins output directory.
\<close>

theorem missing_base_directory_raises_witness:
  "\<not> stub_is_ancestor ''res'' ''lib/f.wad''
   \<and> updateAsset (stub_env []) (stub_cfg False) ''lib/f.wad'' [] =
       (Inl (NoRelativePathAsset ''lib/f.wad''), [])
   \<and> \<not> stub_is_ancestor ''src'' ''lib/y.sma''
   \<and> compilePlugin (stub_env []) (stub_cfg False) ''lib/y.sma'' [] =
       (Inl (NoRelativePathPlugin ''lib/y.sma''), [])
   \<and> plugin_destDir (stub_env []) (stub_cfg True) ''lib/y.sma'' = Inr ''/p/o/p''"
proof -
  have resolver: "findRelativePath (stub_env []) = resolveRelative stub_is_ancestor stub_relative"
    by (simp add: stub_env_def stub_findRelativePath_def)
  have dir: "\<forall>b\<in>set (castArray (input_scripts (stub_cfg flat))).
      stub_is_ancestor b (path_dir (stub_env []) (path_resolve (stub_env []) f)) \<longrightarrow>
      stub_is_ancestor b f"
    if "f = ''lib/y.sma'' \<or> f = ''lib/f.wad''" for flat f
    using that by (auto simp: stub_defs castArray_def)
  have asset: "\<forall>b\<in>set (castArray (input_assets (stub_cfg False))).
      \<not> stub_is_ancestor b ''lib/f.wad''"
    by (simp add: stub_defs castArray_def)
  have script: "\<not> rules_flatCompilation (stub_cfg False)
      \<and> (\<forall>b\<in>set (castArray (input_scripts (stub_cfg False))).
            \<not> stub_is_ancestor b ''lib/y.sma'')"
    by (simp add: stub_defs castArray_def)
  have flat: "rules_flatCompilation (stub_cfg True)"
    by (simp add: stub_defs)
  have 1: "\<not> stub_is_ancestor ''res'' ''lib/f.wad''" and 2: "\<not> stub_is_ancestor ''src'' ''lib/y.sma''"
    by (simp_all add: stub_defs)
  have 3: "path_resolve (stub_env []) (output_plugins (stub_cfg True)) = ''/p/o/p''"
    by (simp add: stub_defs)
  from missing_base_directory_raises [OF resolver dir, of "''lib/f.wad''" False "[]"]
       missing_base_directory_raises [OF resolver dir, of "''lib/y.sma''" False "[]"]
       missing_base_directory_raises [OF resolver dir, of "''lib/y.sma''" True "[]"]
       asset script flat 1 2 3
  show ?thesis by simp
qed

text \<open>
  Claim C7 as stated fails: with the flat rule on, a script of which no scripts
  directory is an ancestor, under the working directory or outside it, is compiled to
  the plugins output directory, and nothing is raised.
\<close>

theorem flat_compile_needs_no_base_directory_counterexample:
  "castArray (input_scripts (stub_cfg True)) = [''src'']
   \<and> \<not> stub_is_ancestor ''src'' ''lib/y.sma''
   \<and> compilePlugin (stub_env []) (stub_cfg True) ''lib/y.sma'' [] =
       (Inr (),
        [Mkdirp ''/p/o/p'',
         Amxxpc \<lparr>arg_path = ''/p/lib/y.sma'', arg_dest = ''/p/o/p'',
                 arg_compiler = ''cc/amxxpc'', arg_includeDir = [''cc/include'', ''inc'']\<rparr>,
         Log Debug [Str ''Done.''],
         Log Success [Str ''Compilation success:'', Str ''lib/y.sma''],
         Log Info [Str ''Plugin updated:'', Str ''/p/o/p/y.amxx'']])
   \<and> \<not> stub_is_ancestor ''src'' ''/x/y.sma''
   \<and> compilePlugin (stub_env []) (stub_cfg True) ''/x/y.sma'' [] =
       (Inr (),
        [Mkdirp ''/p/o/p'',
         Amxxpc \<lparr>arg_path = ''/x/y.sma'', arg_dest = ''/p/o/p'',
                 arg_compiler = ''cc/amxxpc'', arg_includeDir = [''cc/include'', ''inc'']\<rparr>,
         Log Debug [Str ''Done.''],
         Log Success [Str ''Compilation success:'', Str ''../x/y.sma''],
         Log Info [Str ''Plugin updated:'', Str ''/p/o/p/y.amxx'']])"
  by (simp add: builder_defs stub_defs Let_def)



section \<open>Copying one file\<close>

lemma last_copy_append:
  "last_copy (w @ es) p = (case last_copy es p of Some s \<Rightarrow> Some s | None \<Rightarrow> last_copy w p)"
  by (induction w p rule: last_copy.induct) (simp_all split: option.splits)

lemma sync_run:
  assumes "fst (await (do_mkdirp E d) (\<lambda>_. await (do_copyFile E src dst) (\<lambda>_. logger lvl args)) w)
             = Inr ()"
  shows "snd (await (do_mkdirp E d) (\<lambda>_. await (do_copyFile E src dst) (\<lambda>_. logger lvl args)) w)
           = w @ [Mkdirp d, CopyFile src dst, Log lvl args]"
  using assms
  by (auto simp: await_def do_mkdirp_def do_copyFile_def logger_def split: option.splits)

lemma last_copy_sync:
  "last_copy (w @ [Mkdirp d, CopyFile src dst, Log lvl args]) dst = Some src"
  by (simp add: last_copy_append)

text \<open>
  Claim C9. A script that was copied went to its base name directly under the scripts
  output directory, and so did an include file under the include output directory; an
  asset that was copied went, under the assets output directory, to its path relative
  to the assets input directory. In each case the directory was created first, then
  the file was copied, and the copy is the latest one onto its destination, whatever
  was copied there before.
\<close>

theorem sync_destinations:
  "(truthy_str (output_scripts cfg) \<and> fst (updateScript E cfg filePath w) = Inr () \<longrightarrow>
      snd (updateScript E cfg filePath w) =
        w @ [Mkdirp (output_scripts cfg),
             CopyFile (path_resolve E filePath)
               (path_join E (output_scripts cfg) (path_base E filePath)),
             Log Info [Str ''Script updated:'',
               Str (normalizePath E (path_join E (output_scripts cfg) (path_base E filePath)))]]
      \<and> last_copy (snd (updateScript E cfg filePath w))
            (path_join E (output_scripts cfg) (path_base E filePath))
          = Some (path_resolve E filePath))
   \<and> (fst (updateInclude E cfg filePath w) = Inr () \<longrightarrow>
      snd (updateInclude E cfg filePath w) =
        w @ [Mkdirp (output_include cfg),
             CopyFile (path_resolve E filePath)
               (path_join E (output_include cfg) (path_base E filePath)),
             Log Info [Str ''Include updated:'',
               Str (normalizePath E (path_join E (output_include cfg) (path_base E filePath)))]]
      \<and> last_copy (snd (updateInclude E cfg filePath w))
            (path_join E (output_include cfg) (path_base E filePath))
          = Some (path_resolve E filePath))
   \<and> (fst (updateAsset E cfg filePath w) = Inr () \<longrightarrow>
      (\<exists>relativePath.
         findRelativePath E (castArray (input_assets cfg)) filePath = Some relativePath
         \<and> snd (updateAsset E cfg filePath w) =
             w @ [Mkdirp (path_dir E (path_join E (output_assets cfg) relativePath)),
                  CopyFile (path_resolve E filePath)
                    (path_join E (output_assets cfg) relativePath),
                  Log Info [Str ''Asset updated'',
                    Str (normalizePath E (path_join E (output_assets cfg) relativePath))]]
         \<and> last_copy (snd (updateAsset E cfg filePath w))
               (path_join E (output_assets cfg) relativePath)
             = Some (path_resolve E filePath)))"
proof (intro conjI impI)
  assume a: "truthy_str (output_scripts cfg) \<and> fst (updateScript E cfg filePath w) = Inr ()"
  then have t: "truthy_str (output_scripts cfg)"
    and ok: "fst (updateScript E cfg filePath w) = Inr ()"
    by simp_all
  then have "snd (updateScript E cfg filePath w) =
        w @ [Mkdirp (output_scripts cfg),
             CopyFile (path_resolve E filePath)
               (path_join E (output_scripts cfg) (path_base E filePath)),
             Log Info [Str ''Script updated:'',
               Str (normalizePath E (path_join E (output_scripts cfg) (path_base E filePath)))]]"
    by (simp add: updateScript_def Let_def sync_run)
  then show "snd (updateScript E cfg filePath w) =
        w @ [Mkdirp (output_scripts cfg),
             CopyFile (path_resolve E filePath)
               (path_join E (output_scripts cfg) (path_base E filePath)),
             Log Info [Str ''Script updated:'',
               Str (normalizePath E (path_join E (output_scripts cfg) (path_base E filePath)))]]"
    and "last_copy (snd (updateScript E cfg filePath w))
            (path_join E (output_scripts cfg) (path_base E filePath))
          = Some (path_resolve E filePath)"
    by (simp_all only: last_copy_sync)
next
  assume a: "fst (updateInclude E cfg filePath w) = Inr ()"
  then have "snd (updateInclude E cfg filePath w) =
        w @ [Mkdirp (output_include cfg),
             CopyFile (path_resolve E filePath)
               (path_join E (output_include cfg) (path_base E filePath)),
             Log Info [Str ''Include updated:'',
               Str (normalizePath E (path_join E (output_include cfg) (path_base E filePath)))]]"
    by (simp add: updateInclude_def Let_def sync_run)
  then show "snd (updateInclude E cfg filePath w) =
        w @ [Mkdirp (output_include cfg),
             CopyFile (path_resolve E filePath)
               (path_join E (output_include cfg) (path_base E filePath)),
             Log Info [Str ''Include updated:'',
               Str (normalizePath E (path_join E (output_include cfg) (path_base E filePath)))]]"
    and "last_copy (snd (updateInclude E cfg filePath w))
            (path_join E (output_include cfg) (path_base E filePath))
          = Some (path_resolve E filePath)"
    by (simp_all only: last_copy_sync)
next
  assume a: "fst (updateAsset E cfg filePath w) = Inr ()"
  then obtain rel where
    rel: "findRelativePath E (castArray (input_assets cfg)) filePath = Some rel"
    by (cases "findRelativePath E (castArray (input_assets cfg)) filePath")
       (simp_all add: updateAsset_def Let_def throw_def)
  with a have ne: "truthy_str rel"
    by (auto simp: updateAsset_def Let_def throw_def split: if_splits)
  from a rel ne have "snd (updateAsset E cfg filePath w) =
             w @ [Mkdirp (path_dir E (path_join E (output_assets cfg) rel)),
                  CopyFile (path_resolve E filePath) (path_join E (output_assets cfg) rel),
                  Log Info [Str ''Asset updated'',
                    Str (normalizePath E (path_join E (output_assets cfg) rel))]]"
    by (simp add: updateAsset_def Let_def sync_run)
  with rel show "\<exists>relativePath.
         findRelativePath E (castArray (input_assets cfg)) filePath = Some relativePath
         \<and> snd (updateAsset E cfg filePath w) =
             w @ [Mkdirp (path_dir E (path_join E (output_assets cfg) relativePath)),
                  CopyFile (path_resolve E filePath)
                    (path_join E (output_assets cfg) relativePath),
                  Log Info [Str ''Asset updated'',
                    Str (normalizePath E (path_join E (output_assets cfg) relativePath))]]
         \<and> last_copy (snd (updateAsset E cfg filePath w))
               (path_join E (output_assets cfg) relativePath)
             = Some (path_resolve E filePath)"
    by (simp only: last_copy_sync simp_thms ex_simps option.inject)
qed

text \<open>
  A script in a sub-directory is flattened and replaces an earlier copy at the same
  destination; an asset keeps its sub-directory.
\<close>

theorem sync_destinations_witness:
  "snd (updateScript (stub_env []) (stub_cfg True) ''src/m/b.sma''
          [CopyFile ''/p/old/b.sma'' ''o/s/b.sma'']) =
     [CopyFile ''/p/old/b.sma'' ''o/s/b.sma'', Mkdirp ''o/s'',
      CopyFile ''/p/src/m/b.sma'' ''o/s/b.sma'',
      Log Info [Str ''Script updated:'', Str ''o/s/b.sma'']]
   \<and> last_copy [CopyFile ''/p/old/b.sma'' ''o/s/b.sma''] ''o/s/b.sma'' = Some ''/p/old/b.sma''
   \<and> last_copy (snd (updateScript (stub_env []) (stub_cfg True) ''src/m/b.sma''
                        [CopyFile ''/p/old/b.sma'' ''o/s/b.sma''])) ''o/s/b.sma''
       = Some ''/p/src/m/b.sma''
   \<and> snd (updateInclude (stub_env []) (stub_cfg True) ''inc/u.inc'' []) =
       [Mkdirp ''o/i'', CopyFile ''/p/inc/u.inc'' ''o/i/u.inc'',
        Log Info [Str ''Include updated:'', Str ''o/i/u.inc'']]
   \<and> snd (updateAsset (stub_env []) (stub_cfg True) ''res/t/f.wad'' []) =
       [Mkdirp ''o/r/t'', CopyFile ''/p/res/t/f.wad'' ''o/r/t/f.wad'',
        Log Info [Str ''Asset updated'', Str ''o/r/t/f.wad'']]"
proof -
  have s: "truthy_str (output_scripts (stub_cfg True))
      \<and> fst (updateScript (stub_env []) (stub_cfg True) ''src/m/b.sma''
               [CopyFile ''/p/old/b.sma'' ''o/s/b.sma'']) = Inr ()"
    by (simp add: builder_defs stub_defs Let_def)
  have i: "fst (updateInclude (stub_env []) (stub_cfg True) ''inc/u.inc'' []) = Inr ()"
    by (simp add: builder_defs stub_defs Let_def)
  have a: "fst (updateAsset (stub_env []) (stub_cfg True) ''res/t/f.wad'' []) = Inr ()"
    by (simp add: builder_defs stub_defs Let_def)
  have r: "findRelativePath (stub_env []) (castArray (input_assets (stub_cfg True))) ''res/t/f.wad''
      = Some ''t/f.wad''"
    by (simp add: builder_defs stub_defs Let_def)
  from sync_destinations [of "stub_cfg True" "stub_env []" "''src/m/b.sma''"
         "[CopyFile ''/p/old/b.sma'' ''o/s/b.sma'']"]
       sync_destinations [of "stub_cfg True" "stub_env []" "''inc/u.inc''" "[]"]
       sync_destinations [of "stub_cfg True" "stub_env []" "''res/t/f.wad''" "[]"]
       s i a r
  show ?thesis
    by (simp add: stub_defs)
qed

section \<open>The whole build\<close>

lemma forEachMatch_extends:
  assumes cb: "\<And>m l w. \<exists>es. snd (snd (cb m (l, w))) = w @ es \<and> list_all Q es"
    and call: "\<And>m. Q (Call m)"
  shows "\<exists>es. snd (snd (forEachMatch cb ms (l, w))) = w @ es \<and> list_all Q es"
proof (induction ms arbitrary: l w)
  case Nil
  show ?case by simp
next
  case (Cons m ms)
  obtain r l' w' where step: "invoke cb m (l, w) = (r, (l', w'))"
    by (cases "invoke cb m (l, w)") auto
  from cb [of m l "w @ [Call m]"] step obtain es where
    es: "w' = w @ Call m # es" "list_all Q es"
    by (auto simp: invoke_def)
  show ?case
  proof (cases r)
    case (Inl e)
    with step es call show ?thesis by simp
  next
    case (Inr u)
    from Cons [of l' w'] obtain es' where
      es': "snd (snd (forEachMatch cb ms (l', w'))) = w' @ es'" "list_all Q es'" by auto
    with Inr step es call show ?thesis by simp
  qed
qed

lemma plain_cb_extends:
  assumes "appends Q (f m)"
  shows "\<exists>es. snd (snd (plain_cb f m (l, w))) = w @ es \<and> list_all Q es"
  using appendsD [OF assms, of w] by (auto simp: plain_cb_def split: prod.splits)

lemma buildSrc_cb_extends:
  "\<exists>es. snd (snd (buildSrc_cb E cfg options m (l, w))) = w @ es
        \<and> list_all (\<lambda>ev. \<not> is_terminal ev) es"
proof -
  have "appends (\<lambda>ev. \<not> is_terminal ev) (updatePlugin E cfg m)"
    by (rule appends_mono [OF appends_updatePlugin plain_not_terminal])
  from appendsD [OF this, of w] show ?thesis
    by (auto simp: buildSrc_cb_def split: prod.splits sum.splits)
qed

lemma appends_buildSrc: "appends (\<lambda>ev. \<not> is_terminal ev) (buildSrc E cfg options)"
proof (rule appendsI)
  fix w
  from forEachMatch_extends [of "buildSrc_cb E cfg options" "\<lambda>ev. \<not> is_terminal ev",
      OF buildSrc_cb_extends Call_not_terminal]
  show "\<exists>es. snd (buildSrc E cfg options w) = w @ es \<and> list_all (\<lambda>ev. \<not> is_terminal ev) es"
    by (simp add: buildSrc_snd)
qed

lemma buildInclude_snd:
  "snd (buildInclude E cfg w) =
     snd (snd (forEachMatch (plain_cb (updateInclude E cfg))
                 (scan E (input_include cfg) (INCLUDE_PATH_PATTERN E) w) ((), w)))"
  by (simp add: buildInclude_def buildDir_def reduce_is_loop split: prod.splits)

lemma buildAssets_snd:
  "truthy_str (input_assets cfg) \<Longrightarrow>
   snd (buildAssets E cfg w) =
     snd (snd (forEachMatch (plain_cb (updateAsset E cfg))
                 (scan E (input_assets cfg) (ASSETS_PATH_PATTERN E) w) ((), w)))"
  by (simp add: buildAssets_def buildDir_def reduce_is_loop split: prod.splits)

lemma appends_buildInclude: "appends (\<lambda>ev. \<not> is_terminal ev) (buildInclude E cfg)"
proof (rule appendsI)
  fix w
  have cb: "\<exists>es. snd (snd (plain_cb (updateInclude E cfg) m (l, w))) = w @ es
              \<and> list_all (\<lambda>ev. \<not> is_terminal ev) es" for m l w
    by (rule plain_cb_extends) (rule appends_mono [OF appends_updateInclude plain_not_terminal])
  from forEachMatch_extends [of "plain_cb (updateInclude E cfg)" "\<lambda>ev. \<not> is_terminal ev",
      OF cb Call_not_terminal]
  show "\<exists>es. snd (buildInclude E cfg w) = w @ es \<and> list_all (\<lambda>ev. \<not> is_terminal ev) es"
    unfolding buildInclude_snd by blast
qed

lemma appends_buildAssets: "appends (\<lambda>ev. \<not> is_terminal ev) (buildAssets E cfg)"
proof (rule appendsI)
  fix w
  have cb: "\<exists>es. snd (snd (plain_cb (updateAsset E cfg) m (l, w))) = w @ es
              \<and> list_all (\<lambda>ev. \<not> is_terminal ev) es" for m l w
    by (rule plain_cb_extends) (rule appends_mono [OF appends_updateAsset plain_not_terminal])
  show "\<exists>es. snd (buildAssets E cfg w) = w @ es \<and> list_all (\<lambda>ev. \<not> is_terminal ev) es"
  proof (cases "truthy_str (input_assets cfg)")
    case True
    from forEachMatch_extends [of "plain_cb (updateAsset E cfg)" "\<lambda>ev. \<not> is_terminal ev",
        OF cb Call_not_terminal]
    show ?thesis
      unfolding buildAssets_snd [OF True] by blast
  next
    case False
    then show ?thesis by (simp add: buildAssets_def)
  qed
qed

lemma build_eq:
  "build E cfg options =
     await (build_body E cfg options) (\<lambda>success.
       if success then logger Success [Str ''Build finished!'']
       else logger Err [Str ''Build finished with errors!''])"
  by (rule ext) (simp add: build_def build_body_def await_def split: prod.splits sum.splits)

lemma appends_build_body: "appends (\<lambda>ev. \<not> is_terminal ev) (build_body E cfg options)"
  unfolding build_body_def
  by (intro appends_await appends_logger appends_buildAssets appends_buildInclude
        appends_buildSrc)
     (simp add: is_terminal_def terminal_line_def)

lemma build_body_src:
  "build_body E cfg options w = (Inr ok, w') \<Longrightarrow>
   \<exists>w1. buildSrc E cfg options w1 = (Inr ok, w')"
  by (auto simp: build_body_def await_def split: prod.splits sum.splits)

lemmas build_defs = build_def build_body_def buildAssets_def buildInclude_def

text \<open>
  Claim C2, as amended. A run of \<open>build\<close> that returns ends with exactly one closing
  line, logged last: the success line when \<open>buildSrc\<close> returned true, the line of
  errors when it returned false; all the rest, every diagnostic among it, comes before
  that line. A run of \<open>build\<close> that raises logs no closing line.
\<close>

theorem build_terminal_line:
  "(fst (build E cfg options w) = Inr () \<longrightarrow>
      (\<exists>es ok w1.
         snd (build E cfg options w) = w @ es @ [terminal_line ok]
         \<and> (\<forall>ev \<in> set es. \<not> is_terminal ev)
         \<and> buildSrc E cfg options w1 = (Inr ok, w @ es)))
   \<and> ((\<exists>e. fst (build E cfg options w) = Inl e) \<longrightarrow>
      (\<exists>es. snd (build E cfg options w) = w @ es \<and> (\<forall>ev \<in> set es. \<not> is_terminal ev)))"
proof -
  obtain r w' where body: "build_body E cfg options w = (r, w')"
    by (cases "build_body E cfg options w") auto
  from appendsD [OF appends_build_body, of E cfg options w] body obtain es where
    es: "w' = w @ es" "list_all (\<lambda>ev. \<not> is_terminal ev) es"
    by auto
  show ?thesis
  proof (cases r)
    case (Inl e)
    with body es show ?thesis
      by (auto simp: build_eq await_def list_all_iff)
  next
    case (Inr ok)
    with body build_body_src [of E cfg options w ok w'] obtain w1 where
      src: "buildSrc E cfg options w1 = (Inr ok, w')" by auto
    from Inr body have "build E cfg options w = (Inr (), w' @ [terminal_line ok])"
      by (simp add: build_eq await_def logger_def terminal_line_def)
    with es src show ?thesis
      by (auto simp: list_all_iff)
  qed
qed

text \<open>
  With \<open>ignoreErrors\<close> set and a rejected script the run ends with the line of errors;
  with no rejected script it ends with the success line.
\<close>

theorem build_terminal_line_witness:
  "build (stub_env [''/p/src/m/b.sma'']) (stub_cfg True) \<lparr>ignoreErrors = Some True\<rparr> [] =
     (Inr (),
      snd (build_body (stub_env [''/p/src/m/b.sma'']) (stub_cfg True)
             \<lparr>ignoreErrors = Some True\<rparr> []) @ [terminal_line False])
   \<and> filter is_terminal
         (snd (build (stub_env [''/p/src/m/b.sma'']) (stub_cfg True)
                 \<lparr>ignoreErrors = Some True\<rparr> [])) = [terminal_line False]
   \<and> filter is_terminal
         (snd (build (stub_env []) (stub_cfg True) \<lparr>ignoreErrors = Some False\<rparr> []))
       = [terminal_line True]"
  using build_terminal_line [of "stub_env [''/p/src/m/b.sma'']" "stub_cfg True"
          "\<lparr>ignoreErrors = Some True\<rparr>" "[]"]
  by (simp add: build_defs builder_defs stub_defs is_terminal_def terminal_line_def Let_def)

text \<open>
  Claim C2 as stated fails: with \<open>ignoreErrors\<close> false and a rejected script, \<open>build\<close>
  raises the failure; no closing line is logged, and the last line is the diagnostic.
\<close>

theorem build_raises_without_terminal_line_counterexample:
  "fst (build (stub_env [''/p/src/m/b.sma'']) (stub_cfg True) \<lparr>ignoreErrors = Some False\<rparr> [])
     = Inl (FailedToCompile ''src/m/b.sma'' ''1 Error.'')
   \<and> filter is_terminal
         (snd (build (stub_env [''/p/src/m/b.sma'']) (stub_cfg True)
                 \<lparr>ignoreErrors = Some False\<rparr> [])) = []
   \<and> last (snd (build (stub_env [''/p/src/m/b.sma'']) (stub_cfg True)
                   \<lparr>ignoreErrors = Some False\<rparr> []))
       = Log Err [Loc ''src/m/b.sma'' (Some 9), Ty Error, Code (Some ''017''), Str '':'',
                  Str ''undefined symbol'']"
  by (simp add: build_defs builder_defs stub_defs is_terminal_def terminal_line_def Let_def)

end
